theory Spec2Isabelle
  imports Complex_Main "HOL-Library.Log_Nat" "HOL-Library.Multiset" "HOL-Library.Char_ord"
    "HOL-Library.List_Lexorder"
begin

section \<open>Python values\<close>

text \<open>
  The program of \<^verbatim>\<open>function_app.py\<close> passes JSON-shaped dictionaries between its
  activities. A dictionary is an association list in insertion order (the order in which
  Python keeps and serialises its keys); a float is the rational number that the IEEE
  double denotes.
\<close>

datatype pyval =
    PNone
  | PBool bool
  | PInt int
  | PFloat rat
  | PStr string
  | PList "pyval list"
  | PDict "(string \<times> pyval) list"

type_synonym pydict = "(string \<times> pyval) list"

text \<open>Instances of \<^verbatim>\<open>Exception\<close>, each with the text that \<^verbatim>\<open>str(e)\<close> gives (for a
  \<^verbatim>\<open>KeyError\<close> the \<^verbatim>\<open>repr\<close> of the key); the last constructor stands for the errors of
  the storage SDK, the imaging library and the JSON library (class name and message).\<close>

datatype exn =
    KeyError string
  | IndexError string
  | TypeError string
  | AttributeError string
  | ValueError string
  | ZeroDivisionError string
  | LibraryError string string

fun str_exn :: "exn \<Rightarrow> string" where
  "str_exn (KeyError m) = m"
| "str_exn (IndexError m) = m"
| "str_exn (TypeError m) = m"
| "str_exn (AttributeError m) = m"
| "str_exn (ValueError m) = m"
| "str_exn (ZeroDivisionError m) = m"
| "str_exn (LibraryError c m) = m"

fun py_type_name :: "pyval \<Rightarrow> string" where
  "py_type_name PNone = ''NoneType''"
| "py_type_name (PBool b) = ''bool''"
| "py_type_name (PInt i) = ''int''"
| "py_type_name (PFloat x) = ''float''"
| "py_type_name (PStr s) = ''str''"
| "py_type_name (PList xs) = ''list''"
| "py_type_name (PDict d) = ''dict''"

text \<open>Truth value of an object, as \<^verbatim>\<open>if x\<close> and \<^verbatim>\<open>x or y\<close> test it.\<close>

fun py_truthy :: "pyval \<Rightarrow> bool" where
  "py_truthy PNone = False"
| "py_truthy (PBool b) = b"
| "py_truthy (PInt i) = (i \<noteq> 0)"
| "py_truthy (PFloat x) = (x \<noteq> 0)"
| "py_truthy (PStr s) = (s \<noteq> [])"
| "py_truthy (PList xs) = (xs \<noteq> [])"
| "py_truthy (PDict d) = (d \<noteq> [])"

text \<open>A string between single quotes, as \<^verbatim>\<open>repr\<close> shows the keys and type names of this
  program.\<close>

definition quoted :: "string \<Rightarrow> string" where
  "quoted s = [CHR 0x27] @ s @ [CHR 0x27]"

text \<open>\<^verbatim>\<open>d[k]\<close> raises \<^verbatim>\<open>KeyError\<close> on a missing key; \<^verbatim>\<open>d.get(k, default)\<close> does not.\<close>

definition dict_index :: "(string \<times> 'v) list \<Rightarrow> string \<Rightarrow> exn + 'v" where
  "dict_index d k = (case map_of d k of None \<Rightarrow> Inl (KeyError (quoted k)) | Some v \<Rightarrow> Inr v)"

definition dict_get :: "pydict \<Rightarrow> string \<Rightarrow> pyval \<Rightarrow> pyval" where
  "dict_get d k dflt = (case map_of d k of None \<Rightarrow> dflt | Some v \<Rightarrow> v)"

text \<open>\<^verbatim>\<open>"/" in x\<close>: substring test on a string, membership on a list, key membership on a
  dictionary, \<^verbatim>\<open>TypeError\<close> on anything else.\<close>

fun slash_in :: "pyval \<Rightarrow> exn + bool" where
  "slash_in (PStr s) = Inr (CHR ''/'' \<in> set s)"
| "slash_in (PList xs) = Inr (PStr ''/'' \<in> set xs)"
| "slash_in (PDict d) = Inr (''/'' \<in> set (map fst d))"
| "slash_in v = Inl (TypeError (''argument of type '' @ quoted (py_type_name v) @ '' is not iterable''))"

definition no_split :: "pyval \<Rightarrow> exn" where
  "no_split v = AttributeError (quoted (py_type_name v) @ '' object has no attribute '' @ quoted ''split'')"

text \<open>\<^verbatim>\<open>s.split("/")\<close>: the pieces between the separators, never an empty list.\<close>

fun split_slash :: "string \<Rightarrow> string list" where
  "split_slash [] = [[]]"
| "split_slash (c # cs) =
     (if c = CHR ''/'' then [] # split_slash cs
      else (case split_slash cs of [] \<Rightarrow> [[c]] | p # ps \<Rightarrow> (c # p) # ps))"

text \<open>\<^verbatim>\<open>s.split("/", 1)\<close> on a string that holds a separator: the part before the first
  one and everything after it.\<close>

definition split_slash_once :: "string \<Rightarrow> string \<times> string" where
  "split_slash_once s = (takeWhile (\<lambda>c. c \<noteq> CHR ''/'') s, tl (dropWhile (\<lambda>c. c \<noteq> CHR ''/'') s))"

section \<open>Floats\<close>

text \<open>
  An IEEE double is modelled by the rational it denotes. \<open>to_double\<close> rounds a rational
  to the nearest number with a 53-bit significand, ties to even, which is what true
  division, float multiplication and the reading of a float literal do. The exponent range
  (overflow, subnormal numbers) is not modelled: the floats of this program are quotients
  of a count by 2500, of a pixel count by 1,000,000 and of a byte length by 1024, and the
  imaging library keeps width and height below \<open>2\<^sup>3\<^sup>1\<close>.
\<close>

definition round_half_even :: "rat \<Rightarrow> int" where
  "round_half_even x =
     (let f = \<lfloor>x\<rfloor>; d = x - of_int f
      in if d < 1 / 2 then f else if 1 / 2 < d then f + 1 else if even f then f else f + 1)"

text \<open>The exponent \<open>e\<close> with \<open>2\<^sup>e \<le> |x| < 2\<^sup>e\<^sup>+\<^sup>1\<close>, for \<open>x \<noteq> 0\<close>.\<close>

definition binade :: "rat \<Rightarrow> int" where
  "binade x =
     (let (p, q) = quotient_of \<bar>x\<bar>; d = bitlen p - bitlen q
      in if 2 powi d \<le> \<bar>x\<bar> then d else d - 1)"

definition to_double :: "rat \<Rightarrow> rat" where
  "to_double x =
     (if x = 0 then 0
      else let u = 2 powi (binade x - 52) in of_int (round_half_even (x / u)) * u)"

text \<open>A float literal such as \<^verbatim>\<open>0.85\<close>.\<close>

definition float_lit :: "rat \<Rightarrow> rat" where
  "float_lit r = to_double r"

text \<open>\<^verbatim>\<open>a / b\<close> on two ints (correctly rounded) and \<^verbatim>\<open>x * y\<close> on two floats.\<close>

definition int_truediv :: "int \<Rightarrow> int \<Rightarrow> exn + rat" where
  "int_truediv a b =
     (if b = 0 then Inl (ZeroDivisionError ''division by zero'')
      else Inr (to_double (of_int a / of_int b)))"

definition float_mul :: "rat \<Rightarrow> rat \<Rightarrow> rat" where
  "float_mul x y = to_double (x * y)"

text \<open>\<^verbatim>\<open>round(x, n)\<close> on a float: the exact value of the double is rounded to \<open>n\<close>
  decimals, half to even, and the decimal is read back as a double.\<close>

definition py_round :: "rat \<Rightarrow> nat \<Rightarrow> rat" where
  "py_round x n = to_double (of_int (round_half_even (x * 10 ^ n)) / 10 ^ n)"

section \<open>The outside world\<close>

type_synonym bytes = string

text \<open>What the program reads of a decoded image: \<^verbatim>\<open>image.size\<close>, \<^verbatim>\<open>image.format\<close>
  (which may be \<^verbatim>\<open>None\<close>) and \<^verbatim>\<open>image.mode\<close>.\<close>

record pil_image =
  image_size :: "int \<times> int"
  image_format :: "string option"
  image_mode :: string

type_synonym pixel = "int \<times> int \<times> int"

text \<open>A blob service client: container and blob name to the blob's bytes, or the SDK's
  error.\<close>

type_synonym blob_service = "string \<Rightarrow> pyval \<Rightarrow> exn + bytes"

text \<open>
  The collaborators of the program: the process environment, the blob storage SDK, and
  the imaging library (\<^verbatim>\<open>Image.open\<close>, \<^verbatim>\<open>image.convert\<close>, and
  \<^verbatim>\<open>list(image.resize(size).getdata())\<close>).
\<close>

record world =
  environ :: "string \<Rightarrow> string option"
  blob_service_client :: "string \<Rightarrow> exn + blob_service"
  image_open :: "bytes \<Rightarrow> exn + pil_image"
  image_convert :: "pil_image \<Rightarrow> string \<Rightarrow> exn + pil_image"
  image_resize_getdata :: "pil_image \<Rightarrow> int \<times> int \<Rightarrow> exn + pixel list"

definition download_blob_bytes :: "world \<Rightarrow> pyval \<Rightarrow> exn + bytes" where
  "download_blob_bytes w blob_name =
     (case environ w ''ImageStorageConnection'' of
        None \<Rightarrow> Inl (KeyError (quoted ''ImageStorageConnection''))
      | Some conn_str \<Rightarrow>
          (case blob_service_client w conn_str of
             Inl e \<Rightarrow> Inl e
           | Inr service \<Rightarrow>
               (case slash_in blob_name of
                  Inl e \<Rightarrow> Inl e
                | Inr True \<Rightarrow>
                    (case blob_name of
                       PStr s \<Rightarrow> (let (container, blob) = split_slash_once s
                                  in service container (PStr blob))
                     | _ \<Rightarrow> Inl (no_split blob_name))
                | Inr False \<Rightarrow> service ''images'' blob_name)))"

text \<open>The first two statements of the three image analyzers:
  \<^verbatim>\<open>image_bytes = download_blob_bytes(inputData["blob_name"])\<close> and
  \<^verbatim>\<open>image = Image.open(io.BytesIO(image_bytes))\<close>.\<close>

definition fetch_image :: "world \<Rightarrow> pydict \<Rightarrow> exn + pil_image" where
  "fetch_image w inputData =
     (case dict_index inputData ''blob_name'' of
        Inl e \<Rightarrow> Inl e
      | Inr blob_name \<Rightarrow>
          (case download_blob_bytes w blob_name of
             Inl e \<Rightarrow> Inl e
           | Inr image_bytes \<Rightarrow> image_open w image_bytes))"

section \<open>Object analyzer\<close>

definition mock_object :: "string \<Rightarrow> rat \<Rightarrow> pyval" where
  "mock_object name conf = PDict [(''name'', PStr name), (''confidence'', PFloat (float_lit conf))]"

definition mock_objects_of :: "int \<Rightarrow> int \<Rightarrow> pyval list" where
  "mock_objects_of width height =
     (let mock_objects = [];
          mock_objects =
            (if width > height then mock_objects @ [mock_object ''landscape'' (85 / 100)]
             else if height > width then mock_objects @ [mock_object ''portrait'' (82 / 100)]
             else mock_objects @ [mock_object ''square composition'' (90 / 100)]);
          mock_objects =
            (if width * height > 1000000
             then mock_objects @ [mock_object ''high-resolution scene'' (78 / 100)]
             else mock_objects)
      in mock_objects @ [mock_object ''digital image'' (99 / 100)])"

definition analyze_objects :: "world \<Rightarrow> pydict \<Rightarrow> pyval" where
  "analyze_objects w inputData =
     (case fetch_image w inputData of
        Inr img \<Rightarrow>
          (let (width, height) = image_size img;
               mock_objects = mock_objects_of width height
           in PDict [(''objects'', PList mock_objects),
                     (''objectCount'', PInt (int (length mock_objects))),
                     (''note'', PStr ''Mock analysis'')])
      | Inl e \<Rightarrow>
          PDict [(''objects'', PList []), (''objectCount'', PInt 0),
                 (''error'', PStr (str_exn e))])"

section \<open>Metadata analyzer\<close>

definition analyze_metadata :: "world \<Rightarrow> pydict \<Rightarrow> pyval" where
  "analyze_metadata w inputData =
     (let failed = (\<lambda>e. PDict [(''width'', PInt 0), (''height'', PInt 0),
                                (''format'', PStr ''Unknown''), (''error'', PStr (str_exn e))])
      in case fetch_image w inputData of
           Inl e \<Rightarrow> failed e
         | Inr img \<Rightarrow>
             (let (width, height) = image_size img;
                  total_pixels = width * height
              in case int_truediv total_pixels 1000000 of
                   Inl e \<Rightarrow> failed e
                 | Inr q \<Rightarrow>
                     PDict [(''width'', PInt width),
                            (''height'', PInt height),
                            (''format'',
                               (case image_format img of
                                  None \<Rightarrow> PStr ''Unknown''
                                | Some f \<Rightarrow> if f \<noteq> [] then PStr f else PStr ''Unknown'')),
                            (''mode'', PStr (image_mode img)),
                            (''totalPixels'', PInt total_pixels),
                            (''megapixels'', PFloat (py_round q 2)),
                            (''sizeKB'', dict_get inputData ''blob_size_kb'' PNone)]))"

section \<open>Color analyzer\<close>

text \<open>\<^verbatim>\<open>d[k] = v\<close> on a dictionary kept in insertion order: an existing key keeps its
  place, a new key goes to the end.\<close>

fun dict_put :: "'k \<Rightarrow> 'v \<Rightarrow> ('k \<times> 'v) list \<Rightarrow> ('k \<times> 'v) list" where
  "dict_put k v [] = [(k, v)]"
| "dict_put k v ((k', v') # d) = (if k' = k then (k, v) # d else (k', v') # dict_put k v d)"

definition quantize :: "pixel \<Rightarrow> pixel" where
  "quantize p = (case p of (r, g, b) \<Rightarrow> (r div 32 * 32, g div 32 * 32, b div 32 * 32))"

text \<open>The counting loop over the samples.\<close>

fun count_colors :: "(pixel \<times> int) list \<Rightarrow> pixel list \<Rightarrow> (pixel \<times> int) list" where
  "count_colors color_counts [] = color_counts"
| "count_colors color_counts (p # pixels) =
     (let key = quantize p
      in count_colors
           (dict_put key ((case map_of color_counts key of None \<Rightarrow> 0 | Some c \<Rightarrow> c) + 1)
              color_counts)
           pixels)"

text \<open>\<^verbatim>\<open>sorted(xs, key=f, reverse=True)\<close> and \<^verbatim>\<open>xs.sort(key=f, reverse=True)\<close>: the list
  is reversed, sorted by a stable sort and reversed again, so the result is descending and
  items of equal key keep their original order.\<close>

definition sorted_reverse :: "('a \<Rightarrow> 'k::linorder) \<Rightarrow> 'a list \<Rightarrow> 'a list" where
  "sorted_reverse key xs = rev (sort_key key (rev xs))"

definition sorted_by_count_desc :: "('k \<times> int) list \<Rightarrow> ('k \<times> int) list" where
  "sorted_by_count_desc items = sorted_reverse snd items"

text \<open>The format specification \<^verbatim>\<open>02x\<close>: lowercase hexadecimal, padded with zeros to
  two characters.\<close>

definition hex_digit :: "nat \<Rightarrow> char" where
  "hex_digit d = ''0123456789abcdef'' ! d"

fun hex_digits :: "nat \<Rightarrow> string" where
  "hex_digits n = (if n < 16 then [hex_digit n] else hex_digits (n div 16) @ [hex_digit (n mod 16)])"

definition format_02x :: "int \<Rightarrow> string" where
  "format_02x i =
     (let s = (if i < 0 then ''-'' @ hex_digits (nat (- i)) else hex_digits (nat i))
      in replicate (2 - length s) (CHR ''0'') @ s)"

text \<open>One entry of \<^verbatim>\<open>top_colors\<close>; \<open>n\<close> is \<^verbatim>\<open>len(pixels)\<close>.\<close>

definition top_color :: "int \<Rightarrow> pixel \<times> int \<Rightarrow> exn + pyval" where
  "top_color n item =
     (case item of ((r, g, b), cnt) \<Rightarrow>
        (case int_truediv cnt n of
           Inl e \<Rightarrow> Inl e
         | Inr share \<Rightarrow>
             Inr (PDict [(''hex'', PStr (''#'' @ format_02x r @ format_02x g @ format_02x b)),
                         (''rgb'', PDict [(''r'', PInt r), (''g'', PInt g), (''b'', PInt b)]),
                         (''percentage'', PFloat (py_round (float_mul share 100) 1))])))"

fun top_colors_loop :: "int \<Rightarrow> (pixel \<times> int) list \<Rightarrow> exn + pyval list" where
  "top_colors_loop n [] = Inr []"
| "top_colors_loop n (item # items) =
     (case top_color n item of
        Inl e \<Rightarrow> Inl e
      | Inr c \<Rightarrow> (case top_colors_loop n items of Inl e \<Rightarrow> Inl e | Inr cs \<Rightarrow> Inr (c # cs)))"

definition neutral :: "pixel \<Rightarrow> bool" where
  "neutral p = (case p of (r, g, b) \<Rightarrow> \<bar>r - g\<bar> < 30 \<and> \<bar>g - b\<bar> < 30)"

text \<open>The statements of the \<^verbatim>\<open>try\<close> block up to the sample list.\<close>

definition load_pixels :: "world \<Rightarrow> pydict \<Rightarrow> exn + pixel list" where
  "load_pixels w inputData =
     (case fetch_image w inputData of
        Inl e \<Rightarrow> Inl e
      | Inr img \<Rightarrow>
          (case (if image_mode img \<noteq> ''RGB'' then image_convert w img ''RGB'' else Inr img) of
             Inl e \<Rightarrow> Inl e
           | Inr img' \<Rightarrow> image_resize_getdata w img' (50, 50)))"

text \<open>The rest of the \<^verbatim>\<open>try\<close> block.\<close>

definition color_stats :: "pixel list \<Rightarrow> exn + pyval" where
  "color_stats pixels =
     (let color_counts = count_colors [] pixels;
          sorted_colors = sorted_by_count_desc color_counts
      in case top_colors_loop (int (length pixels)) (take 5 sorted_colors) of
           Inl e \<Rightarrow> Inl e
         | Inr top_colors \<Rightarrow>
             (let grayscale_pixels = int (length (filter neutral pixels))
              in case int_truediv grayscale_pixels (int (length pixels)) of
                   Inl e \<Rightarrow> Inl e
                 | Inr fraction \<Rightarrow>
                     Inr (PDict [(''dominantColors'', PList top_colors),
                                 (''isGrayscale'', PBool (fraction > float_lit (9 / 10))),
                                 (''totalPixelsSampled'', PInt (int (length pixels)))])))"

definition analyze_colors :: "world \<Rightarrow> pydict \<Rightarrow> pyval" where
  "analyze_colors w inputData =
     (case (case load_pixels w inputData of Inl e \<Rightarrow> Inl e | Inr pixels \<Rightarrow> color_stats pixels) of
        Inr result \<Rightarrow> result
      | Inl e \<Rightarrow>
          PDict [(''dominantColors'', PList []), (''isGrayscale'', PBool False),
                 (''totalPixelsSampled'', PInt 0), (''error'', PStr (str_exn e))])"

section \<open>Text analyzer\<close>

definition analyze_text :: "pydict \<Rightarrow> pyval" where
  "analyze_text inputData =
     PDict [(''hasText'', PBool False), (''extractedText'', PStr []),
            (''confidence'', PFloat (float_lit 0)), (''language'', PStr ''unknown''),
            (''note'', PStr ''Mock OCR'')]"

section \<open>Report builder\<close>

text \<open>What one invocation of the report builder takes from outside: the string of
  \<^verbatim>\<open>uuid.uuid4()\<close>, the text of \<^verbatim>\<open>datetime.utcnow().isoformat()\<close>, and the text that an
  f-string gives for a float, a list or a dictionary.\<close>

record report_env =
  uuid4_str :: string
  utcnow_isoformat :: string
  repr_other :: "pyval \<Rightarrow> string"

text \<open>The rest of a block runs on the value of a step unless the step raised.\<close>

definition and_then :: "exn + 'a \<Rightarrow> ('a \<Rightarrow> exn + 'b) \<Rightarrow> exn + 'b" where
  "and_then r f = (case r of Inl e \<Rightarrow> Inl e | Inr v \<Rightarrow> f v)"

text \<open>\<^verbatim>\<open>x.get(k, default)\<close>, \<^verbatim>\<open>x[k]\<close> with a string key and \<^verbatim>\<open>x[0]\<close> on any value.\<close>

definition py_get :: "pyval \<Rightarrow> string \<Rightarrow> pyval \<Rightarrow> exn + pyval" where
  "py_get x k dflt =
     (case x of
        PDict d \<Rightarrow> Inr (dict_get d k dflt)
      | _ \<Rightarrow> Inl (AttributeError (quoted (py_type_name x) @ '' object has no attribute '' @ quoted ''get'')))"

definition py_index :: "pyval \<Rightarrow> string \<Rightarrow> exn + pyval" where
  "py_index x k =
     (case x of
        PDict d \<Rightarrow> dict_index d k
      | PList xs \<Rightarrow> Inl (TypeError ''list indices must be integers or slices, not str'')
      | PStr s \<Rightarrow> Inl (TypeError (''string indices must be integers, not '' @ quoted ''str''))
      | _ \<Rightarrow> Inl (TypeError (quoted (py_type_name x) @ '' object is not subscriptable'')))"

definition py_index0 :: "pyval \<Rightarrow> exn + pyval" where
  "py_index0 x =
     (case x of
        PList [] \<Rightarrow> Inl (IndexError ''list index out of range'')
      | PList (v # vs) \<Rightarrow> Inr v
      | PStr [] \<Rightarrow> Inl (IndexError ''string index out of range'')
      | PStr (c # cs) \<Rightarrow> Inr (PStr [c])
      | PDict d \<Rightarrow> Inl (KeyError ''0'')
      | _ \<Rightarrow> Inl (TypeError (quoted (py_type_name x) @ '' object is not subscriptable'')))"

text \<open>Decimal text of an int.\<close>

fun dec_digits :: "nat \<Rightarrow> string" where
  "dec_digits n =
     (if n < 10 then [''0123456789'' ! n] else dec_digits (n div 10) @ [''0123456789'' ! (n mod 10)])"

definition str_int :: "int \<Rightarrow> string" where
  "str_int i = (if i < 0 then ''-'' @ dec_digits (nat (- i)) else dec_digits (nat i))"

text \<open>The text of a value inside an f-string.\<close>

definition format_value :: "(pyval \<Rightarrow> string) \<Rightarrow> pyval \<Rightarrow> string" where
  "format_value other v =
     (case v of
        PNone \<Rightarrow> ''None''
      | PBool b \<Rightarrow> (if b then ''True'' else ''False'')
      | PInt i \<Rightarrow> str_int i
      | PStr s \<Rightarrow> s
      | _ \<Rightarrow> other v)"

text \<open>\<^verbatim>\<open>blob_name.split("/")[-1] if "/" in blob_name else blob_name\<close>.\<close>

definition file_name_of :: "pyval \<Rightarrow> exn + pyval" where
  "file_name_of blob_name =
     (case slash_in blob_name of
        Inl e \<Rightarrow> Inl e
      | Inr True \<Rightarrow>
          (case blob_name of
             PStr s \<Rightarrow> Inr (PStr (last (split_slash s)))
           | _ \<Rightarrow> Inl (no_split blob_name))
      | Inr False \<Rightarrow> Inr blob_name)"

text \<open>\<^verbatim>\<open>colors["dominantColors"][0]["hex"] if colors.get("dominantColors") else "N/A"\<close>.\<close>

definition dominant_color :: "pyval \<Rightarrow> exn + pyval" where
  "dominant_color colors =
     and_then (py_get colors ''dominantColors'' PNone) (\<lambda>cond.
       if py_truthy cond
       then and_then (py_index colors ''dominantColors'') (\<lambda>dcs.
              and_then (py_index0 dcs) (\<lambda>first. py_index first ''hex''))
       else Inr (PStr ''N/A''))"

definition generate_report :: "report_env \<Rightarrow> pydict \<Rightarrow> exn + pyval" where
  "generate_report env reportData =
     and_then (dict_index reportData ''blob_name'') (\<lambda>blob_name.
     and_then (file_name_of blob_name) (\<lambda>filename.
     and_then (dict_index reportData ''colors'') (\<lambda>colors.
     and_then (dict_index reportData ''objects'') (\<lambda>objects.
     and_then (dict_index reportData ''text'') (\<lambda>text.
     and_then (dict_index reportData ''metadata'') (\<lambda>metadata.
     and_then (py_get metadata ''width'' (PInt 0)) (\<lambda>width.
     and_then (py_get metadata ''height'' (PInt 0)) (\<lambda>height.
     and_then (py_get metadata ''format'' (PStr ''Unknown'')) (\<lambda>fmt.
     and_then (dominant_color colors) (\<lambda>dominant.
     and_then (py_get objects ''objectCount'' (PInt 0)) (\<lambda>object_count.
     and_then (py_get text ''hasText'' (PBool False)) (\<lambda>has_text.
     and_then (py_get colors ''isGrayscale'' (PBool False)) (\<lambda>is_grayscale.
       Inr (PDict
         [(''id'', PStr (uuid4_str env)),
          (''fileName'', filename),
          (''blobPath'', blob_name),
          (''analyzedAt'', PStr (utcnow_isoformat env)),
          (''analyses'',
             PDict [(''colors'', colors), (''objects'', objects), (''text'', text),
                    (''metadata'', metadata)]),
          (''summary'',
             PDict [(''imageSize'',
                       PStr (format_value (repr_other env) width @ ''x''
                               @ format_value (repr_other env) height)),
                    (''format'', fmt),
                    (''dominantColor'', dominant),
                    (''objectsDetected'', object_count),
                    (''hasText'', has_text),
                    (''isGrayscale'', is_grayscale)])]))))))))))))))"

text \<open>A color result as the report builder needs it: \<^verbatim>\<open>dominantColors\<close> is absent, or a
  list that is empty or starts with an entry that has a \<^verbatim>\<open>hex\<close>.\<close>

definition well_formed_colors :: "pydict \<Rightarrow> bool" where
  "well_formed_colors c =
     (case map_of c ''dominantColors'' of
        None \<Rightarrow> True
      | Some (PList []) \<Rightarrow> True
      | Some (PList (PDict e # rest)) \<Rightarrow> map_of e ''hex'' \<noteq> None
      | Some v \<Rightarrow> False)"

text \<open>The \<^verbatim>\<open>hex\<close> of the first entry of \<^verbatim>\<open>dominantColors\<close>, if there is one.\<close>

definition first_hex :: "pydict \<Rightarrow> pyval option" where
  "first_hex c =
     (case map_of c ''dominantColors'' of
        Some (PList (PDict e # rest)) \<Rightarrow> map_of e ''hex''
      | _ \<Rightarrow> None)"

definition demo_env :: report_env where
  "demo_env = \<lparr>uuid4_str = ''00000000-0000-4000-8000-000000000001'',
               utcnow_isoformat = ''2024-01-01T00:00:00'',
               repr_other = (\<lambda>v. ''?'')\<rparr>"

section \<open>Orchestrator\<close>

text \<open>
  The orchestrator is a generator driven by the durable-functions runtime. The model keeps
  the order in which activities are scheduled and what the generator does with their
  outcomes. \<open>run\<close> is the runtime's answer to a scheduled activity (its result, or the
  failure that the runtime raises into the generator), and \<open>scheduled\<close> is the list of the
  calls made so far. Timing and parallel execution of the four analyzers are not
  represented.
\<close>

datatype call = Call string pyval

text \<open>\<^verbatim>\<open>context.call_activity(name, input)\<close> schedules the activity and gives the task.\<close>

definition call_activity ::
  "(string \<Rightarrow> pyval \<Rightarrow> exn + pyval) \<Rightarrow> string \<Rightarrow> pyval \<Rightarrow> call list \<Rightarrow> (exn + pyval) \<times> call list" where
  "call_activity run name input scheduled = (run name input, scheduled @ [Call name input])"

text \<open>\<^verbatim>\<open>yield context.task_all(tasks)\<close>: the results of all tasks in order, or the failure
  of a task that failed.\<close>

fun task_all :: "(exn + pyval) list \<Rightarrow> exn + pyval list" where
  "task_all [] = Inr []"
| "task_all (t # ts) =
     (case t of
        Inl e \<Rightarrow> Inl e
      | Inr v \<Rightarrow> (case task_all ts of Inl e \<Rightarrow> Inl e | Inr vs \<Rightarrow> Inr (v # vs)))"

text \<open>\<^verbatim>\<open>xs[i]\<close> for \<open>i \<ge> 0\<close>.\<close>

definition list_index :: "'a list \<Rightarrow> nat \<Rightarrow> exn + 'a" where
  "list_index xs i = (if i < length xs then Inr (xs ! i) else Inl (IndexError ''list index out of range''))"

definition image_analyzer_orchestrator ::
  "(string \<Rightarrow> pyval \<Rightarrow> exn + pyval) \<Rightarrow> pydict \<Rightarrow> (exn + pyval) \<times> call list" where
  "image_analyzer_orchestrator run input_data =
     (let (t1, scheduled) = call_activity run ''analyze_colors'' (PDict input_data) [];
          (t2, scheduled) = call_activity run ''analyze_objects'' (PDict input_data) scheduled;
          (t3, scheduled) = call_activity run ''analyze_text'' (PDict input_data) scheduled;
          (t4, scheduled) = call_activity run ''analyze_metadata'' (PDict input_data) scheduled;
          analysis_tasks = [t1, t2, t3, t4]
      in case task_all analysis_tasks of
           Inl e \<Rightarrow> (Inl e, scheduled)
         | Inr results \<Rightarrow>
             (case and_then (dict_index input_data ''blob_name'') (\<lambda>blob_name.
                   and_then (list_index results 0) (\<lambda>colors.
                   and_then (list_index results 1) (\<lambda>objects.
                   and_then (list_index results 2) (\<lambda>text.
                   and_then (list_index results 3) (\<lambda>metadata.
                     Inr [(''blob_name'', blob_name), (''colors'', colors), (''objects'', objects),
                          (''text'', text), (''metadata'', metadata)]))))) of
                Inl e \<Rightarrow> (Inl e, scheduled)
              | Inr report_input \<Rightarrow>
                  (let (t5, scheduled) = call_activity run ''generate_report'' (PDict report_input) scheduled
                   in case t5 of
                        Inl e \<Rightarrow> (Inl e, scheduled)
                      | Inr report \<Rightarrow> call_activity run ''store_results'' report scheduled)))"

text \<open>The four calls of the fan-out.\<close>

definition fan_out :: "pydict \<Rightarrow> call list" where
  "fan_out input_data =
     [Call ''analyze_colors'' (PDict input_data), Call ''analyze_objects'' (PDict input_data),
      Call ''analyze_text'' (PDict input_data), Call ''analyze_metadata'' (PDict input_data)]"

section \<open>Query endpoint\<close>

text \<open>
  A table entity is a dictionary of the string properties that \<^verbatim>\<open>store_results\<close> writes.
  The table client, \<^verbatim>\<open>json.loads\<close>, \<^verbatim>\<open>json.dumps\<close> (with its \<^verbatim>\<open>indent\<close>) and the builtin
  \<^verbatim>\<open>int\<close> applied to a string (the number, or its \<^verbatim>\<open>ValueError\<close>) belong to the outside
  world.
\<close>

type_synonym entity = "(string \<times> string) list"

record table_client =
  get_entity :: "string \<Rightarrow> string \<Rightarrow> exn + entity"
  query_entities :: "string \<Rightarrow> exn + entity list"

record store_world =
  store_environ :: "string \<Rightarrow> string option"
  table_service_client :: "string \<Rightarrow> exn + table_client"
  json_loads :: "string \<Rightarrow> exn + pyval"
  json_dumps :: "nat option \<Rightarrow> pyval \<Rightarrow> string"
  py_int :: "string \<Rightarrow> exn + int"

record http_request =
  route_params :: "string \<Rightarrow> string option"
  params :: "string \<Rightarrow> string option"

record http_response =
  body :: string
  mimetype :: string
  status_code :: int

definition PARTITION_KEY :: string where
  "PARTITION_KEY = ''ImageAnalysis''"

definition get_table_client :: "store_world \<Rightarrow> exn + table_client" where
  "get_table_client w =
     (case store_environ w ''ImageStorageConnection'' of
        None \<Rightarrow> Inl (KeyError (quoted ''ImageStorageConnection''))
      | Some connection_string \<Rightarrow> table_service_client w connection_string)"

text \<open>\<^verbatim>\<open>xs[:n]\<close>: the first \<open>n\<close> items, and for a negative \<open>n\<close> all but the last \<open>-n\<close>.\<close>

definition slice_to :: "int \<Rightarrow> 'a list \<Rightarrow> 'a list" where
  "slice_to n xs = (if 0 \<le> n then take (nat n) xs else take (nat (int (length xs) + n)) xs)"

text \<open>One item of the list comprehension over the entities.\<close>

definition result_of_entity :: "store_world \<Rightarrow> entity \<Rightarrow> exn + pydict" where
  "result_of_entity w e =
     and_then (dict_index e ''RowKey'') (\<lambda>row_key.
     and_then (dict_index e ''FileName'') (\<lambda>file_name.
     and_then (dict_index e ''AnalyzedAt'') (\<lambda>analyzed_at.
     and_then (dict_index e ''Summary'') (\<lambda>summary_text.
     and_then (json_loads w summary_text) (\<lambda>summary.
       Inr [(''id'', PStr row_key), (''fileName'', PStr file_name),
            (''analyzedAt'', PStr analyzed_at), (''summary'', summary)])))))"

fun results_of_entities :: "store_world \<Rightarrow> entity list \<Rightarrow> exn + pydict list" where
  "results_of_entities w [] = Inr []"
| "results_of_entities w (e # es) =
     and_then (result_of_entity w e) (\<lambda>r.
     and_then (results_of_entities w es) (\<lambda>rs. Inr (r # rs)))"

text \<open>The sort key \<^verbatim>\<open>x["analyzedAt"]\<close>; every item of the comprehension holds a string
  there.\<close>

definition analyzed_at :: "pydict \<Rightarrow> string" where
  "analyzed_at x = (case map_of x ''analyzedAt'' of Some (PStr s) \<Rightarrow> s | _ \<Rightarrow> [])"

text \<open>The \<^verbatim>\<open>try\<close> block: the value handed to \<^verbatim>\<open>json.dumps\<close> and its \<^verbatim>\<open>indent\<close>.\<close>

definition get_results_try :: "store_world \<Rightarrow> http_request \<Rightarrow> exn + pyval \<times> nat option" where
  "get_results_try w req =
     and_then (get_table_client w) (\<lambda>table_client.
       let result_id = route_params req ''id''
       in case result_id of
            Some (c # cs) \<Rightarrow>
              and_then (get_entity table_client PARTITION_KEY (c # cs)) (\<lambda>entity.
              and_then (dict_index entity ''RowKey'') (\<lambda>row_key.
              and_then (dict_index entity ''FileName'') (\<lambda>file_name.
              and_then (dict_index entity ''BlobPath'') (\<lambda>blob_path.
              and_then (dict_index entity ''AnalyzedAt'') (\<lambda>analyzed.
              and_then (and_then (dict_index entity ''Summary'') (json_loads w)) (\<lambda>summary.
              and_then (and_then (dict_index entity ''ColorAnalysis'') (json_loads w)) (\<lambda>colors.
              and_then (and_then (dict_index entity ''ObjectAnalysis'') (json_loads w)) (\<lambda>objects.
              and_then (and_then (dict_index entity ''TextAnalysis'') (json_loads w)) (\<lambda>text.
              and_then (and_then (dict_index entity ''MetadataAnalysis'') (json_loads w)) (\<lambda>metadata.
                Inr (PDict [(''id'', PStr row_key), (''fileName'', PStr file_name),
                            (''blobPath'', PStr blob_path), (''analyzedAt'', PStr analyzed),
                            (''summary'', summary),
                            (''analyses'',
                               PDict [(''colors'', colors), (''objects'', objects),
                                      (''text'', text), (''metadata'', metadata)])],
                     Some 2)))))))))))
          | _ \<Rightarrow>
              and_then (py_int w (case params req ''limit'' of None \<Rightarrow> ''10'' | Some s \<Rightarrow> s)) (\<lambda>limit.
              and_then (query_entities table_client (''PartitionKey eq '' @ quoted PARTITION_KEY)) (\<lambda>entities.
              and_then (results_of_entities w entities) (\<lambda>results.
                let results = sorted_reverse analyzed_at results;
                    results = slice_to limit results
                in Inr (PDict [(''count'', PInt (int (length results))),
                               (''results'', PList (map PDict results))],
                        Some 2)))))"

definition get_results :: "store_world \<Rightarrow> http_request \<Rightarrow> http_response" where
  "get_results w req =
     (case get_results_try w req of
        Inr (v, indent) \<Rightarrow>
          \<lparr>body = json_dumps w indent v, mimetype = ''application/json'', status_code = 200\<rparr>
      | Inl e \<Rightarrow>
          \<lparr>body = json_dumps w None (PDict [(''error'', PStr (str_exn e))]),
           mimetype = ''application/json'', status_code = 500\<rparr>)"

text \<open>A table of five records. \<^verbatim>\<open>json.loads\<close> is stood in for by a function that keeps
  the text, and \<^verbatim>\<open>int\<close> by its values on the three texts used below.\<close>

definition demo_int :: "string \<Rightarrow> exn + int" where
  "demo_int s =
     (if s = ''10'' then Inr 10
      else if s = ''2'' then Inr 2
      else if s = ''-1'' then Inr (- 1)
      else Inl (ValueError (''invalid literal for int() with base 10: '' @ quoted s)))"

definition demo_entity :: "string \<Rightarrow> string \<Rightarrow> entity" where
  "demo_entity row_key analyzed =
     [(''PartitionKey'', PARTITION_KEY), (''RowKey'', row_key), (''FileName'', ''a.png''),
      (''BlobPath'', ''images/a.png''), (''AnalyzedAt'', analyzed), (''Summary'', ''{}''),
      (''ColorAnalysis'', ''{}''), (''ObjectAnalysis'', ''{}''), (''TextAnalysis'', ''{}''),
      (''MetadataAnalysis'', ''{}'')]"

definition demo_entities :: "entity list" where
  "demo_entities =
     [demo_entity ''r3'' ''2024-01-03T00:00:00'', demo_entity ''r1'' ''2024-01-01T00:00:00'',
      demo_entity ''r5'' ''2024-01-05T00:00:00'', demo_entity ''r2'' ''2024-01-02T00:00:00'',
      demo_entity ''r4'' ''2024-01-04T00:00:00'']"

definition demo_table :: table_client where
  "demo_table =
     \<lparr>get_entity = (\<lambda>pk rk.
        case filter (\<lambda>e. map_of e ''PartitionKey'' = Some pk \<and> map_of e ''RowKey'' = Some rk)
               demo_entities of
          [] \<Rightarrow> Inl (LibraryError ''ResourceNotFoundError'' ''The specified resource does not exist.'')
        | e # es \<Rightarrow> Inr e),
      query_entities = (\<lambda>f. Inr demo_entities)\<rparr>"

definition demo_store :: store_world where
  "demo_store =
     \<lparr>store_environ = (\<lambda>k. if k = ''ImageStorageConnection'' then Some ''conn'' else None),
      table_service_client = (\<lambda>c. Inr demo_table),
      json_loads = (\<lambda>s. Inr (PStr s)),
      json_dumps = (\<lambda>indent v. ''json''),
      py_int = demo_int\<rparr>"

definition demo_result :: "string \<Rightarrow> string \<Rightarrow> pyval" where
  "demo_result row_key analyzed =
     PDict [(''id'', PStr row_key), (''fileName'', PStr ''a.png''),
            (''analyzedAt'', PStr analyzed), (''summary'', PStr ''{}'')]"

definition list_request :: "string option \<Rightarrow> http_request" where
  "list_request limit = \<lparr>route_params = (\<lambda>k. None), params = (\<lambda>k. if k = ''limit'' then limit else None)\<rparr>"

definition id_request :: "string \<Rightarrow> http_request" where
  "id_request rid = \<lparr>route_params = (\<lambda>k. if k = ''id'' then Some rid else None), params = (\<lambda>k. None)\<rparr>"

text \<open>A world for examples: one blob \<^verbatim>\<open>images/a.png\<close>, decoded as a 100 by 50 RGB
  image whose 2500 samples are all the same red.\<close>

definition demo_image :: pil_image where
  "demo_image = \<lparr>image_size = (100, 50), image_format = Some ''PNG'', image_mode = ''RGB''\<rparr>"

definition demo_world :: world where
  "demo_world =
     \<lparr>environ = (\<lambda>k. if k = ''ImageStorageConnection'' then Some ''conn'' else None),
      blob_service_client =
        (\<lambda>c. Inr (\<lambda>container blob.
           if container = ''images'' \<and> blob = PStr ''a.png'' then Inr ''bytes''
           else Inl (LibraryError ''ResourceNotFoundError'' ''The specified blob does not exist.''))),
      image_open = (\<lambda>b. Inr demo_image),
      image_convert = (\<lambda>img m. Inr img),
      image_resize_getdata = (\<lambda>img sz. Inr (replicate 2500 (255, 0, 0)))\<rparr>"

text \<open>The same blob decoded as a 1000 by 2000 image.\<close>

definition tall_image :: pil_image where
  "tall_image = \<lparr>image_size = (1000, 2000), image_format = Some ''PNG'', image_mode = ''RGB''\<rparr>"

definition tall_world :: world where
  "tall_world = demo_world\<lparr>image_open := (\<lambda>b. Inr tall_image)\<rparr>"

definition demo_job :: pydict where
  "demo_job = [(''blob_name'', PStr ''images/a.png''), (''blob_size_kb'', PFloat (float_lit (1234 / 100)))]"

definition missing_job :: pydict where
  "missing_job = [(''blob_name'', PStr ''images/none.png''), (''blob_size_kb'', PFloat (float_lit (1234 / 100)))]"

text \<open>The count a dictionary of counts holds for a key, 0 when the key is absent.\<close>

abbreviation count_of :: "('k \<times> int) list \<Rightarrow> 'k \<Rightarrow> int" where
  "count_of d k \<equiv> (case map_of d k of None \<Rightarrow> 0 | Some c \<Rightarrow> c)"

text \<open>The shape of one entry of \<^verbatim>\<open>dominantColors\<close>.\<close>

definition color_entry :: "rat \<Rightarrow> pixel \<Rightarrow> pyval" where
  "color_entry pct key =
     (case key of (r, g, b) \<Rightarrow>
        PDict [(''hex'', PStr (''#'' @ format_02x r @ format_02x g @ format_02x b)),
               (''rgb'', PDict [(''r'', PInt r), (''g'', PInt g), (''b'', PInt b)]),
               (''percentage'', PFloat pct)])"




text \<open>A field of a result dictionary, \<open>None\<close> when the key is absent.\<close>

definition result_field :: "pyval \<Rightarrow> string \<Rightarrow> pyval option" where
  "result_field v k = (case v of PDict d \<Rightarrow> map_of d k | _ \<Rightarrow> None)"

text \<open>The world of a pure white image: every sample is (255, 255, 255).\<close>

definition white_world :: world where
  "white_world = demo_world\<lparr>image_resize_getdata := (\<lambda>img sz. Inr (replicate 2500 (255, 255, 255)))\<rparr>"

text \<open>Two outcomes of the report builder agree: the same exception, or reports with the same
  \<^verbatim>\<open>summary\<close> and the same \<^verbatim>\<open>analyses\<close>.\<close>

definition same_content :: "exn + pyval \<Rightarrow> exn + pyval \<Rightarrow> bool" where
  "same_content a b =
     (case a of
        Inl e \<Rightarrow> b = Inl e
      | Inr r \<Rightarrow> (case b of
                    Inl e \<Rightarrow> False
                  | Inr r' \<Rightarrow> result_field r ''summary'' = result_field r' ''summary'' \<and>
                             result_field r ''analyses'' = result_field r' ''analyses''))"

text \<open>A color result with one dominant color.\<close>

definition demo_colors :: pydict where
  "demo_colors =
     [(''dominantColors'', PList [color_entry 100 (224, 0, 0)]), (''isGrayscale'', PBool False),
      (''totalPixelsSampled'', PInt 2500)]"

text \<open>The response of the \<^verbatim>\<open>except\<close> branch.\<close>

definition error_response :: "store_world \<Rightarrow> exn \<Rightarrow> http_response" where
  "error_response w e =
     \<lparr>body = json_dumps w None (PDict [(''error'', PStr (str_exn e))]),
      mimetype = ''application/json'', status_code = 500\<rparr>"

text \<open>An entity holds the four properties that the list reads, its \<^verbatim>\<open>Summary\<close> parses, and
  the record \<open>r\<close> is what the list shows of it.\<close>

definition stored_as :: "store_world \<Rightarrow> entity \<Rightarrow> pydict \<Rightarrow> bool" where
  "stored_as w e r =
     (case (map_of e ''RowKey'', map_of e ''FileName'', map_of e ''AnalyzedAt'', map_of e ''Summary'') of
        (Some row_key, Some file_name, Some analyzed, Some summary_text) \<Rightarrow>
          (case json_loads w summary_text of
             Inr summary \<Rightarrow>
               r = [(''id'', PStr row_key), (''fileName'', PStr file_name),
                    (''analyzedAt'', PStr analyzed), (''summary'', summary)]
           | Inl e \<Rightarrow> False)
      | _ \<Rightarrow> False)"

text \<open>Two runtimes: one in which every activity answers with its own name, and one in which
  the text analyzer fails.\<close>

definition demo_run :: "string \<Rightarrow> pyval \<Rightarrow> exn + pyval" where
  "demo_run name input = Inr (PStr name)"

definition failing_run :: "string \<Rightarrow> pyval \<Rightarrow> exn + pyval" where
  "failing_run name input =
     (if name = ''analyze_text'' then Inl (LibraryError ''HostError'' ''activity host unavailable'')
      else Inr (PStr name))"

section \<open>Facts\<close>

lemma fetch_image_demo: "fetch_image demo_world demo_job = Inr demo_image"
  by (simp add: fetch_image_def demo_job_def dict_index_def download_blob_bytes_def
      demo_world_def split_slash_once_def)

lemma fetch_image_missing:
  "fetch_image demo_world missing_job
     = Inl (LibraryError ''ResourceNotFoundError'' ''The specified blob does not exist.'')"
  by (simp add: fetch_image_def missing_job_def dict_index_def download_blob_bytes_def
      demo_world_def split_slash_once_def)

lemma confidence_doubles:
  "to_double (17 / 20) = 7656119366529843 / 9007199254740992"
  "to_double (41 / 50) = 7385903388887613 / 9007199254740992"
  "to_double (9 / 10) = 8106479329266893 / 9007199254740992"
  "to_double (39 / 50) = 3512807709348987 / 4503599627370496"
  "to_double (99 / 100) = 4458563631096791 / 4503599627370496"
  by code_simp+

lemma fetch_image_tall: "fetch_image tall_world demo_job = Inr tall_image"
  by (simp add: fetch_image_def demo_job_def dict_index_def download_blob_bytes_def
      demo_world_def tall_world_def split_slash_once_def)

text \<open>
  C6. For a decoded image the object analyzer returns the list of records
  \<^verbatim>\<open>{name, confidence}\<close> that starts with the aspect tag (landscape with 0.85 when width
  exceeds height, portrait with 0.82 when height exceeds width, square composition with
  0.90 when they are equal), continues with high-resolution scene with 0.78 exactly when
  width times height exceeds 1,000,000, and ends with digital image with 0.99; objectCount
  is the length of the list. The confidences are the doubles nearest to these decimals,
  written out as fractions. When fetching or decoding fails the result is the empty list, a
  count of 0 and the error message.
\<close>

theorem analyze_objects_tags:
  "(\<forall>img width height.
      fetch_image w inputData = Inr img \<and> image_size img = (width, height) \<longrightarrow>
      (\<exists>objs.
         analyze_objects w inputData =
           PDict [(''objects'', PList objs), (''objectCount'', PInt (int (length objs))),
                  (''note'', PStr ''Mock analysis'')] \<and>
         objs =
           [if width > height
            then PDict [(''name'', PStr ''landscape''),
                        (''confidence'', PFloat (7656119366529843 / 9007199254740992))]
            else if height > width
            then PDict [(''name'', PStr ''portrait''),
                        (''confidence'', PFloat (7385903388887613 / 9007199254740992))]
            else PDict [(''name'', PStr ''square composition''),
                        (''confidence'', PFloat (8106479329266893 / 9007199254740992))]] @
           (if width * height > 1000000
            then [PDict [(''name'', PStr ''high-resolution scene''),
                         (''confidence'', PFloat (3512807709348987 / 4503599627370496))]]
            else []) @
           [PDict [(''name'', PStr ''digital image''),
                   (''confidence'', PFloat (4458563631096791 / 4503599627370496))]])) \<and>
   (\<forall>e. fetch_image w inputData = Inl e \<longrightarrow>
      analyze_objects w inputData =
        PDict [(''objects'', PList []), (''objectCount'', PInt 0), (''error'', PStr (str_exn e))]) \<and>
   to_double (85 / 100) = 7656119366529843 / 9007199254740992 \<and>
   to_double (82 / 100) = 7385903388887613 / 9007199254740992 \<and>
   to_double (90 / 100) = 8106479329266893 / 9007199254740992 \<and>
   to_double (78 / 100) = 3512807709348987 / 4503599627370496 \<and>
   to_double (99 / 100) = 4458563631096791 / 4503599627370496"
  by (auto simp add: analyze_objects_def mock_objects_of_def mock_object_def float_lit_def
      confidence_doubles Let_def)

theorem analyze_objects_tags_witness:
  "fetch_image demo_world demo_job = Inr demo_image \<and> image_size demo_image = (100, 50) \<and>
   analyze_objects demo_world demo_job =
     PDict [(''objects'',
               PList [PDict [(''name'', PStr ''landscape''),
                             (''confidence'', PFloat (7656119366529843 / 9007199254740992))],
                      PDict [(''name'', PStr ''digital image''),
                             (''confidence'', PFloat (4458563631096791 / 4503599627370496))]]),
            (''objectCount'', PInt 2), (''note'', PStr ''Mock analysis'')] \<and>
   fetch_image tall_world demo_job = Inr tall_image \<and> image_size tall_image = (1000, 2000) \<and>
   analyze_objects tall_world demo_job =
     PDict [(''objects'',
               PList [PDict [(''name'', PStr ''portrait''),
                             (''confidence'', PFloat (7385903388887613 / 9007199254740992))],
                      PDict [(''name'', PStr ''high-resolution scene''),
                             (''confidence'', PFloat (3512807709348987 / 4503599627370496))],
                      PDict [(''name'', PStr ''digital image''),
                             (''confidence'', PFloat (4458563631096791 / 4503599627370496))]]),
            (''objectCount'', PInt 3), (''note'', PStr ''Mock analysis'')] \<and>
   fetch_image demo_world missing_job
     = Inl (LibraryError ''ResourceNotFoundError'' ''The specified blob does not exist.'') \<and>
   analyze_objects demo_world missing_job =
     PDict [(''objects'', PList []), (''objectCount'', PInt 0),
            (''error'', PStr ''The specified blob does not exist.'')]"
proof -
  have sz: "image_size demo_image = (100, 50)"
    by (simp add: demo_image_def)
  have tz: "image_size tall_image = (1000, 2000)"
    by (simp add: tall_image_def)
  from analyze_objects_tags [of demo_world demo_job] fetch_image_demo sz
  have 1: "analyze_objects demo_world demo_job =
     PDict [(''objects'',
               PList [PDict [(''name'', PStr ''landscape''),
                             (''confidence'', PFloat (7656119366529843 / 9007199254740992))],
                      PDict [(''name'', PStr ''digital image''),
                             (''confidence'', PFloat (4458563631096791 / 4503599627370496))]]),
            (''objectCount'', PInt 2), (''note'', PStr ''Mock analysis'')]"
    by fastforce
  from analyze_objects_tags [of tall_world demo_job] fetch_image_tall tz
  have 2: "analyze_objects tall_world demo_job =
     PDict [(''objects'',
               PList [PDict [(''name'', PStr ''portrait''),
                             (''confidence'', PFloat (7385903388887613 / 9007199254740992))],
                      PDict [(''name'', PStr ''high-resolution scene''),
                             (''confidence'', PFloat (3512807709348987 / 4503599627370496))],
                      PDict [(''name'', PStr ''digital image''),
                             (''confidence'', PFloat (4458563631096791 / 4503599627370496))]]),
            (''objectCount'', PInt 3), (''note'', PStr ''Mock analysis'')]"
    by fastforce
  from analyze_objects_tags [of demo_world missing_job] fetch_image_missing
  have 3: "analyze_objects demo_world missing_job =
     PDict [(''objects'', PList []), (''objectCount'', PInt 0),
            (''error'', PStr ''The specified blob does not exist.'')]"
    by simp
  from fetch_image_demo sz 1 fetch_image_tall tz 2 fetch_image_missing 3
  show ?thesis by (intro conjI)
qed

subsection \<open>Rounding\<close>

lemma round_half_even_err: "\<bar>of_int (round_half_even y) - y\<bar> \<le> 1 / 2"
proof -
  have "of_int \<lfloor>y\<rfloor> \<le> y" "y < of_int \<lfloor>y\<rfloor> + 1"
    by linarith+
  then show ?thesis
    unfolding round_half_even_def Let_def by (auto simp: abs_le_iff)
qed


lemma bitlen_powi:
  assumes "0 < (p::int)"
  shows "2 powi (bitlen p - 1) \<le> (of_int p :: rat)" and "(of_int p :: rat) < 2 powi bitlen p"
proof -
  from bitlen_bounds [OF assms] have a: "2 ^ nat (bitlen p - 1) \<le> p" and b: "p < 2 ^ nat (bitlen p)"
    by auto
  have ge: "1 \<le> bitlen p" using assms by (auto simp: bitlen_alt_def)
  have "(of_int (2 ^ nat (bitlen p - 1)) :: rat) \<le> of_int p" using a by (simp only: of_int_le_iff)
  then show "2 powi (bitlen p - 1) \<le> (of_int p :: rat)" using ge by (simp add: power_int_def)
  have "(of_int p :: rat) < of_int (2 ^ nat (bitlen p))" using b by (simp only: of_int_less_iff)
  then show "(of_int p :: rat) < 2 powi bitlen p" using ge by (simp add: power_int_def)
qed

lemma binade_bounds:
  assumes "x \<noteq> 0"
  shows "2 powi binade x \<le> \<bar>x\<bar>" and "\<bar>x\<bar> < 2 powi (binade x + 1)"
proof -
  obtain p q where pq: "quotient_of \<bar>x\<bar> = (p, q)" by (cases "quotient_of \<bar>x\<bar>")
  then have q: "0 < q" by (rule quotient_of_denom_pos)
  have x: "\<bar>x\<bar> = of_int p / of_int q" using pq by (rule quotient_of_div)
  have "0 < \<bar>x\<bar>" using assms by simp
  then have "(0::rat) < of_int p / of_int q" using x by simp
  then have p: "0 < p" using q by (simp add: zero_less_divide_iff)
  note P = bitlen_powi [OF p] and Q = bitlen_powi [OF q]
  let ?d = "bitlen p - bitlen q"
  have qr: "(0::rat) < of_int q" using q by simp
  have pr: "(0::rat) < of_int p" using p by simp
  have up: "\<bar>x\<bar> < 2 powi (?d + 1)"
  proof -
    have "of_int p / of_int q < (2 powi bitlen p :: rat) / of_int q"
      using P(2) qr by (simp add: divide_strict_right_mono)
    also have "\<dots> \<le> 2 powi bitlen p / 2 powi (bitlen q - 1)"
      using Q(1) qr by (intro divide_left_mono) (auto intro!: mult_pos_pos)
    also have "\<dots> = 2 powi (?d + 1)"
      by (simp add: power_int_diff power_int_add)
    finally show ?thesis using x by simp
  qed
  have lo: "2 powi (?d - 1) < \<bar>x\<bar>"
  proof -
    have "(2 powi (?d - 1) :: rat) = 2 powi (bitlen p - 1) / 2 powi bitlen q"
      by (simp add: power_int_diff)
    also have "\<dots> < 2 powi (bitlen p - 1) / of_int q"
      using Q(2) qr by (intro divide_strict_left_mono) (auto intro!: mult_pos_pos)
    also have "\<dots> \<le> of_int p / of_int q"
      using P(1) qr by (simp add: divide_right_mono)
    finally show ?thesis using x by simp
  qed
  have b: "binade x = (if 2 powi ?d \<le> \<bar>x\<bar> then ?d else ?d - 1)"
    by (simp add: binade_def pq Let_def)
  show "2 powi binade x \<le> \<bar>x\<bar>" using lo b by (auto simp: less_imp_le)
  show "\<bar>x\<bar> < 2 powi (binade x + 1)" using up b by (auto simp: not_le)
qed

lemma to_double_err: "\<bar>to_double x - x\<bar> \<le> \<bar>x\<bar> / 2 ^ 53"
proof (cases "x = 0")
  case True
  then show ?thesis by (simp add: to_double_def)
next
  case False
  define u :: rat where "u = 2 powi (binade x - 52)"
  have u: "0 < u" by (simp add: u_def)
  have td: "to_double x = of_int (round_half_even (x / u)) * u"
    using False by (simp add: to_double_def u_def Let_def)
  have "\<bar>to_double x - x\<bar> = \<bar>of_int (round_half_even (x / u)) - x / u\<bar> * u"
  proof -
    have "to_double x - x = (of_int (round_half_even (x / u)) - x / u) * u"
      using u by (simp add: td field_simps)
    then show ?thesis using u by (simp add: abs_mult)
  qed
  also have "\<dots> \<le> 1 / 2 * u"
    using round_half_even_err [of "x / u"] u by (intro mult_right_mono) auto
  also have "\<dots> = 2 powi binade x / 2 ^ 53"
    by (simp add: u_def power_int_diff)
  also have "\<dots> \<le> \<bar>x\<bar> / 2 ^ 53"
    using binade_bounds(1) [OF False] by (simp add: divide_right_mono)
  finally show ?thesis .
qed


lemma to_double_near:
  assumes "\<bar>x\<bar> \<le> 101"
  shows "\<bar>to_double x - x\<bar> \<le> 1 / 1000000"
proof -
  have "\<bar>to_double x - x\<bar> \<le> \<bar>x\<bar> / 2 ^ 53" by (rule to_double_err)
  also have "\<dots> \<le> 101 / 2 ^ 53" using assms by (simp add: divide_right_mono)
  also have "\<dots> \<le> 1 / 1000000" by simp
  finally show ?thesis .
qed


lemma fraction_gt_09:
  assumes "0 \<le> g" "g \<le> 2500"
  shows "to_double (of_int g / 2500) > float_lit (9 / 10) \<longleftrightarrow> g > 2250"
proof -
  define x :: rat where "x = of_int g / 2500"
  have x: "0 \<le> x" "x \<le> 1" using assms by (simp_all add: x_def)
  have a: "\<bar>to_double x - x\<bar> \<le> 1 / 1000000"
    using x by (intro to_double_near) linarith
  have b: "\<bar>to_double (9 / 10) - 9 / 10\<bar> \<le> 1 / 1000000"
    by (intro to_double_near) simp
  consider "g \<le> 2249" | "g = 2250" | "2251 \<le> g" by linarith
  then show ?thesis
  proof cases
    case 1
    then have "(of_int g :: rat) \<le> 2249" by (metis of_int_le_iff of_int_numeral)
    then have "x \<le> 2249 / 2500" by (simp add: x_def)
    then have "to_double x < to_double (9 / 10)" using a b by linarith
    then show ?thesis using 1 by (simp add: float_lit_def x_def)
  next
    case 2
    then have "x = 9 / 10" by (simp add: x_def)
    then show ?thesis using 2 by (simp add: float_lit_def x_def)
  next
    case 3
    then have "(2251 :: rat) \<le> of_int g" by (metis of_int_le_iff of_int_numeral)
    then have "2251 / 2500 \<le> x" by (simp add: x_def)
    then have "to_double (9 / 10) < to_double x" using a b by linarith
    then show ?thesis using 3 by (simp add: float_lit_def x_def)
  qed
qed

subsection \<open>Counting and sorting the buckets\<close>

lemma map_of_dict_put: "map_of (dict_put k v d) = (map_of d)(k \<mapsto> v)"
  by (induction d) (auto simp: fun_eq_iff)

lemma keys_dict_put:
  "map fst (dict_put k v d) = (if k \<in> fst ` set d then map fst d else map fst d @ [k])"
  by (induction d) (force simp: image_iff)+

lemma distinct_dict_put: "distinct (map fst d) \<Longrightarrow> distinct (map fst (dict_put k v d))"
  by (simp add: keys_dict_put)

lemma sum_dict_put:
  "sum_list (map snd (dict_put k v d)) = sum_list (map snd d) - count_of d k + v"
  by (induction d) auto


lemma sum_count_colors:
  "sum_list (map snd (count_colors cc ps)) = sum_list (map snd cc) + int (length ps)"
  by (induction ps arbitrary: cc) (simp_all add: Let_def sum_dict_put)

lemma distinct_count_colors:
  "distinct (map fst cc) \<Longrightarrow> distinct (map fst (count_colors cc ps))"
  by (induction ps arbitrary: cc) (simp_all add: Let_def distinct_dict_put)

lemma keys_count_colors:
  "fst ` set (count_colors cc ps) = fst ` set cc \<union> quantize ` set ps"
proof (induction ps arbitrary: cc)
  case Nil
  show ?case by simp
next
  case (Cons p ps)
  have "fst ` set (dict_put k v cc) = insert k (fst ` set cc)" for k v
    using keys_dict_put [of k v cc] by (metis (no_types, lifting) Un_insert_right insert_absorb list.set(1,2) list.set_map set_append sup_bot.right_neutral)
  then show ?case by (simp add: Let_def Cons)
qed

lemma count_of_count_colors:
  "count_of (count_colors cc ps) k
     = count_of cc k + int (length (filter (\<lambda>p. quantize p = k) ps))"
  by (induction ps arbitrary: cc) (auto simp add: Let_def map_of_dict_put)



lemma bucket_counts:
  assumes "(k, c) \<in> set (count_colors [] ps)"
  shows "c = int (length (filter (\<lambda>p. quantize p = k) ps))" and "0 < c"
proof -
  have d: "distinct (map fst (count_colors [] ps))" by (rule distinct_count_colors) simp
  with assms have m: "map_of (count_colors [] ps) k = Some c" by simp
  with count_of_count_colors [of "[]" ps k]
  show c: "c = int (length (filter (\<lambda>p. quantize p = k) ps))" by simp
  from assms have "k \<in> fst ` set (count_colors [] ps)" by force
  then have "k \<in> quantize ` set ps" by (simp add: keys_count_colors)
  then have "filter (\<lambda>p. quantize p = k) ps \<noteq> []" by (auto simp: filter_empty_conv)
  then show "0 < c" using c by simp
qed

lemma set_sorted_reverse [simp]: "set (sorted_reverse f xs) = set xs"
  by (simp add: sorted_reverse_def)

lemma mset_sorted_reverse [simp]: "mset (sorted_reverse f xs) = mset xs"
  by (simp add: sorted_reverse_def)

lemma length_sorted_reverse [simp]: "length (sorted_reverse f xs) = length xs"
  by (simp add: sorted_reverse_def)

lemma desc_sorted_reverse: "sorted_wrt (\<lambda>x y. f y \<le> f x) (sorted_reverse f xs)"
proof -
  have "sorted (map f (sort_key f (rev xs)))" by simp
  then have "sorted_wrt (\<lambda>x y. f x \<le> f y) (sort_key f (rev xs))" by (simp add: sorted_map)
  then show ?thesis by (simp add: sorted_reverse_def sorted_wrt_rev)
qed

lemma set_sorted_by_count_desc [simp]: "set (sorted_by_count_desc xs) = set xs"
  by (simp add: sorted_by_count_desc_def)

lemma mset_sorted_by_count_desc: "mset (sorted_by_count_desc xs) = mset xs"
  by (simp add: sorted_by_count_desc_def)

lemma sum_sorted_by_count_desc:
  "sum_list (map snd (sorted_by_count_desc xs)) = sum_list (map snd xs)"
proof -
  have "mset (map snd (sorted_by_count_desc xs)) = mset (map snd xs)"
    by (simp add: mset_sorted_by_count_desc)
  then show ?thesis by (metis sum_mset_sum_list)
qed

lemma distinct_sorted_by_count_desc:
  "distinct (map fst (sorted_by_count_desc xs)) = distinct (map fst xs)"
proof -
  have "mset (map fst (sorted_by_count_desc xs)) = mset (map fst xs)"
    by (simp add: mset_sorted_by_count_desc)
  then show ?thesis by (metis mset_eq_imp_distinct_iff)
qed

lemma desc_sorted_by_count_desc:
  "sorted_wrt (\<lambda>x y. snd y \<le> snd x) (sorted_by_count_desc xs)"
  unfolding sorted_by_count_desc_def by (rule desc_sorted_reverse)

lemma top_colors_loop_map:
  assumes "n \<noteq> 0"
  shows "top_colors_loop n items =
     Inr (map (\<lambda>(key, c). color_entry (py_round (float_mul (to_double (of_int c / of_int n)) 100) 1) key) items)"
  using assms
  by (induction items) (auto simp: top_color_def int_truediv_def color_entry_def)

lemma color_stats_nonempty:
  assumes "pixels \<noteq> []"
  shows "color_stats pixels =
     Inr (PDict [(''dominantColors'',
                   PList (map (\<lambda>(key, c). color_entry (py_round (float_mul (to_double (of_int c / of_int (int (length pixels)))) 100) 1) key)
                            (take 5 (sorted_by_count_desc (count_colors [] pixels))))),
                 (''isGrayscale'',
                   PBool (to_double (of_int (int (length (filter neutral pixels))) / of_int (int (length pixels))) > float_lit (9 / 10))),
                 (''totalPixelsSampled'', PInt (int (length pixels)))])"
proof -
  have n: "int (length pixels) \<noteq> 0" using assms by simp
  show ?thesis
    unfolding color_stats_def Let_def top_colors_loop_map [OF n]
    using n by (simp add: int_truediv_def)
qed

lemma color_stats_empty: "color_stats [] = Inl (ZeroDivisionError ''division by zero'')"
  by (simp add: color_stats_def int_truediv_def sorted_by_count_desc_def sorted_reverse_def)

lemma sum_list_map_pos:
  fixes f :: "'a \<Rightarrow> int"
  assumes "\<And>x. x \<in> set xs \<Longrightarrow> 0 < f x" and "xs \<noteq> []"
  shows "0 < sum_list (map f xs)"
  using assms
proof (induction xs)
  case Nil
  then show ?case by simp
next
  case (Cons a xs)
  have a: "0 < f a" using Cons.prems(1) by simp
  show ?case
  proof (cases "xs = []")
    case True
    then show ?thesis using a by simp
  next
    case False
    then have "0 < sum_list (map f xs)" using Cons by simp
    then show ?thesis using a by simp
  qed
qed

lemma top5_facts:
  fixes pixels :: "pixel list"
  defines "tp \<equiv> take 5 (sorted_by_count_desc (count_colors [] pixels))"
  shows top5_length: "length tp \<le> 5"
    and top5_desc: "sorted_wrt (\<lambda>x y. snd y \<le> snd x) tp"
    and top5_distinct: "distinct (map fst tp)"
    and top5_counts: "(k, c) \<in> set tp \<Longrightarrow> c = int (length (filter (\<lambda>p. quantize p = k) pixels)) \<and> 0 < c"
    and top5_rest: "k \<notin> fst ` set tp \<Longrightarrow> (k', c') \<in> set tp \<Longrightarrow> int (length (filter (\<lambda>p. quantize p = k) pixels)) \<le> c'"
    and top5_sum: "sum_list (map snd tp) \<le> int (length pixels)"
    and top5_all: "sum_list (map snd tp) = int (length pixels) \<longleftrightarrow> (\<forall>p \<in> set pixels. quantize p \<in> fst ` set tp)"
proof -
  define cc where "cc = count_colors [] pixels"
  define S where "S = sorted_by_count_desc cc"
  define rest where "rest = drop 5 S"
  have S: "S = tp @ rest" by (simp add: tp_def rest_def S_def cc_def)
  have setS: "set S = set cc" by (simp add: S_def)
  have dS: "distinct (map fst S)"
    unfolding S_def cc_def distinct_sorted_by_count_desc by (rule distinct_count_colors) simp
  have sS: "sorted_wrt (\<lambda>x y. snd y \<le> snd x) S"
    unfolding S_def by (rule desc_sorted_by_count_desc)
  have cnt: "c = int (length (filter (\<lambda>p. quantize p = k) pixels)) \<and> 0 < c" if "(k, c) \<in> set S" for k c
    using that bucket_counts [of k c pixels] by (simp add: setS cc_def)
  have cnt_pos: "0 < snd x" if "x \<in> set S" for x
  proof -
    from that have "(fst x, snd x) \<in> set S" by simp
    from cnt [OF this] show ?thesis by (rule conjunct2)
  qed
  have inS: "x \<in> set S" if "x \<in> set tp \<or> x \<in> set rest" for x
    using that by (auto simp: S)
  show "length tp \<le> 5" by (simp add: tp_def)
  show "sorted_wrt (\<lambda>x y. snd y \<le> snd x) tp" using sS by (simp add: S sorted_wrt_append)
  show "distinct (map fst tp)" using dS by (simp add: S)
  show "c = int (length (filter (\<lambda>p. quantize p = k) pixels)) \<and> 0 < c" if "(k, c) \<in> set tp"
  proof -
    from that have "(k, c) \<in> set S" by (simp add: S)
    then show ?thesis by (rule cnt)
  qed
  show "int (length (filter (\<lambda>p. quantize p = k) pixels)) \<le> c'"
    if k: "k \<notin> fst ` set tp" and c': "(k', c') \<in> set tp"
  proof (cases "k \<in> fst ` set rest")
    case True
    then obtain c where kc: "(k, c) \<in> set rest" by force
    with c' sS have "c \<le> c'" by (fastforce simp: S sorted_wrt_append)
    moreover have "c = int (length (filter (\<lambda>p. quantize p = k) pixels))"
      using cnt inS kc by blast
    ultimately show ?thesis by simp
  next
    case False
    with k have "k \<notin> fst ` set S" by (auto simp: S)
    then have "k \<notin> quantize ` set pixels"
      by (simp add: setS cc_def keys_count_colors)
    then have "filter (\<lambda>p. quantize p = k) pixels = []"
      by (auto simp: filter_empty_conv)
    moreover have "0 < c'" using cnt inS c' by blast
    ultimately show ?thesis by simp
  qed
  have total: "sum_list (map snd S) = int (length pixels)"
    by (simp add: S_def cc_def sum_sorted_by_count_desc sum_count_colors)
  have pos: "0 < snd x" if "x \<in> set rest" for x
    using cnt_pos inS that by blast
  have rest_nonneg: "0 \<le> sum_list (map snd rest)"
    using pos by (intro sum_list_nonneg) (auto simp: less_imp_le)
  have rest_pos: "0 < sum_list (map snd rest)" if "rest \<noteq> []"
    using pos that by (rule sum_list_map_pos)
  show "sum_list (map snd tp) \<le> int (length pixels)"
    using total rest_nonneg by (simp add: S)
  have split: "sum_list (map snd tp) + sum_list (map snd rest) = int (length pixels)"
    using total by (simp add: S)
  have "sum_list (map snd tp) = int (length pixels) \<longleftrightarrow> rest = []"
  proof
    assume "sum_list (map snd tp) = int (length pixels)"
    with split have z: "sum_list (map snd rest) = 0" by simp
    show "rest = []"
    proof (rule ccontr)
      assume "rest \<noteq> []"
      then have "0 < sum_list (map snd rest)" by (rule rest_pos)
      with z show False by simp
    qed
  next
    assume "rest = []"
    with split show "sum_list (map snd tp) = int (length pixels)" by simp
  qed
  also have "rest = [] \<longleftrightarrow> (\<forall>p \<in> set pixels. quantize p \<in> fst ` set tp)"
  proof
    assume "rest = []"
    then have "fst ` set tp = quantize ` set pixels"
      using keys_count_colors [of "[]" pixels] setS by (simp add: S cc_def)
    then show "\<forall>p \<in> set pixels. quantize p \<in> fst ` set tp" by simp
  next
    assume a: "\<forall>p \<in> set pixels. quantize p \<in> fst ` set tp"
    show "rest = []"
    proof (rule ccontr)
      assume "rest \<noteq> []"
      then obtain x where x: "x \<in> set rest" by (cases rest) auto
      then have "fst x \<in> fst ` set S" by (simp add: S)
      then have "fst x \<in> quantize ` set pixels"
        by (simp add: setS cc_def keys_count_colors)
      with a have "fst x \<in> fst ` set tp" by auto
      moreover have "fst ` set tp \<inter> fst ` set rest = {}" using dS by (simp add: S)
      ultimately show False using x by auto
    qed
  qed
  finally show "sum_list (map snd tp) = int (length pixels) \<longleftrightarrow> (\<forall>p \<in> set pixels. quantize p \<in> fst ` set tp)" .
qed


lemma analyze_colors_nonempty:
  assumes "load_pixels w inputData = Inr pixels" and "pixels \<noteq> []"
  shows "analyze_colors w inputData =
     PDict [(''dominantColors'',
               PList (map (\<lambda>(key, c). color_entry (py_round (float_mul (to_double (of_int c / of_int (int (length pixels)))) 100) 1) key)
                        (take 5 (sorted_by_count_desc (count_colors [] pixels))))),
            (''isGrayscale'',
               PBool (to_double (of_int (int (length (filter neutral pixels))) / of_int (int (length pixels))) > float_lit (9 / 10))),
            (''totalPixelsSampled'', PInt (int (length pixels)))]"
  by (simp add: analyze_colors_def assms(1) color_stats_nonempty [OF assms(2)])

lemma analyze_colors_failed:
  assumes "load_pixels w inputData = Inl e"
  shows "analyze_colors w inputData =
     PDict [(''dominantColors'', PList []), (''isGrayscale'', PBool False),
            (''totalPixelsSampled'', PInt 0), (''error'', PStr (str_exn e))]"
  by (simp add: analyze_colors_def assms)

lemma analyze_colors_empty:
  assumes "load_pixels w inputData = Inr []"
  shows "analyze_colors w inputData =
     PDict [(''dominantColors'', PList []), (''isGrayscale'', PBool False),
            (''totalPixelsSampled'', PInt 0), (''error'', PStr ''division by zero'')]"
  by (simp add: analyze_colors_def assms color_stats_empty)

lemma load_pixels_fetch_failed:
  "fetch_image w inputData = Inl e \<Longrightarrow> load_pixels w inputData = Inl e"
  by (simp add: load_pixels_def)

lemma load_pixels_demo: "load_pixels demo_world demo_job = Inr (replicate 2500 (255, 0, 0))"
  by (simp add: load_pixels_def fetch_image_demo) (simp add: demo_world_def demo_image_def)

lemma load_pixels_missing:
  "load_pixels demo_world missing_job
     = Inl (LibraryError ''ResourceNotFoundError'' ''The specified blob does not exist.'')"
  by (simp add: load_pixels_def fetch_image_missing)










subsection \<open>The guard of the color analyzer\<close>

text \<open>
  C5. When fetching or decoding fails, when the conversion or the resampling fails, or when
  processing fails (an empty sample list makes the grayscale fraction divide by zero), the
  color analyzer returns the zero-value result with the error message: no colors,
  isGrayscale false, totalPixelsSampled 0. The analyzer is a total function to a result
  dictionary, and on every other input the result carries no error.
\<close>

theorem analyze_colors_guard:
  "(\<forall>e. fetch_image w inputData = Inl e \<longrightarrow>
      analyze_colors w inputData =
        PDict [(''dominantColors'', PList []), (''isGrayscale'', PBool False),
               (''totalPixelsSampled'', PInt 0), (''error'', PStr (str_exn e))]) \<and>
   (\<forall>e. load_pixels w inputData = Inl e \<longrightarrow>
      analyze_colors w inputData =
        PDict [(''dominantColors'', PList []), (''isGrayscale'', PBool False),
               (''totalPixelsSampled'', PInt 0), (''error'', PStr (str_exn e))]) \<and>
   (load_pixels w inputData = Inr [] \<longrightarrow>
      analyze_colors w inputData =
        PDict [(''dominantColors'', PList []), (''isGrayscale'', PBool False),
               (''totalPixelsSampled'', PInt 0), (''error'', PStr ''division by zero'')]) \<and>
   (\<forall>pixels. load_pixels w inputData = Inr pixels \<and> pixels \<noteq> [] \<longrightarrow>
      (\<exists>tops gray.
         analyze_colors w inputData =
           PDict [(''dominantColors'', PList tops), (''isGrayscale'', PBool gray),
                  (''totalPixelsSampled'', PInt (int (length pixels)))]))"
proof (intro conjI allI impI)
  fix e assume "fetch_image w inputData = Inl e"
  then have "load_pixels w inputData = Inl e" by (rule load_pixels_fetch_failed)
  then show "analyze_colors w inputData =
        PDict [(''dominantColors'', PList []), (''isGrayscale'', PBool False),
               (''totalPixelsSampled'', PInt 0), (''error'', PStr (str_exn e))]"
    by (rule analyze_colors_failed)
next
  fix e assume "load_pixels w inputData = Inl e"
  then show "analyze_colors w inputData =
        PDict [(''dominantColors'', PList []), (''isGrayscale'', PBool False),
               (''totalPixelsSampled'', PInt 0), (''error'', PStr (str_exn e))]"
    by (rule analyze_colors_failed)
next
  assume "load_pixels w inputData = Inr []"
  then show "analyze_colors w inputData =
        PDict [(''dominantColors'', PList []), (''isGrayscale'', PBool False),
               (''totalPixelsSampled'', PInt 0), (''error'', PStr ''division by zero'')]"
    by (rule analyze_colors_empty)
next
  fix pixels assume "load_pixels w inputData = Inr pixels \<and> pixels \<noteq> []"
  then have "load_pixels w inputData = Inr pixels" "pixels \<noteq> []" by simp_all
  from analyze_colors_nonempty [OF this]
  show "\<exists>tops gray.
         analyze_colors w inputData =
           PDict [(''dominantColors'', PList tops), (''isGrayscale'', PBool gray),
                  (''totalPixelsSampled'', PInt (int (length pixels)))]"
    by blast
qed

theorem analyze_colors_guard_witness:
  "fetch_image demo_world missing_job
     = Inl (LibraryError ''ResourceNotFoundError'' ''The specified blob does not exist.'') \<and>
   analyze_colors demo_world missing_job =
     PDict [(''dominantColors'', PList []), (''isGrayscale'', PBool False),
            (''totalPixelsSampled'', PInt 0),
            (''error'', PStr ''The specified blob does not exist.'')] \<and>
   load_pixels demo_world demo_job = Inr (replicate 2500 (255, 0, 0)) \<and>
   replicate 2500 (255 :: int, 0 :: int, 0 :: int) \<noteq> [] \<and>
   (\<exists>tops gray.
      analyze_colors demo_world demo_job =
        PDict [(''dominantColors'', PList tops), (''isGrayscale'', PBool gray),
               (''totalPixelsSampled'', PInt 2500)])"
proof -
  have ne: "replicate 2500 (255 :: int, 0 :: int, 0 :: int) \<noteq> []" by simp
  from analyze_colors_guard [of demo_world missing_job] fetch_image_missing
  have 1: "analyze_colors demo_world missing_job =
     PDict [(''dominantColors'', PList []), (''isGrayscale'', PBool False),
            (''totalPixelsSampled'', PInt 0),
            (''error'', PStr ''The specified blob does not exist.'')]"
    by simp
  from analyze_colors_guard [of demo_world demo_job] load_pixels_demo ne
  have 2: "\<exists>tops gray.
      analyze_colors demo_world demo_job =
        PDict [(''dominantColors'', PList tops), (''isGrayscale'', PBool gray),
               (''totalPixelsSampled'', PInt 2500)]"
    by simp
  from fetch_image_missing 1 load_pixels_demo ne 2 show ?thesis by (intro conjI)
qed

subsection \<open>Grayscale classification\<close>

lemma load_pixels_white: "load_pixels white_world demo_job = Inr (replicate 2500 (255, 255, 255))"
proof -
  have "fetch_image white_world demo_job = Inr demo_image"
    by (simp add: fetch_image_def demo_job_def dict_index_def download_blob_bytes_def
      demo_world_def white_world_def split_slash_once_def)
  then show ?thesis
    by (simp add: load_pixels_def) (simp add: demo_world_def white_world_def demo_image_def)
qed

text \<open>
  C8. A sample counts as neutral exactly when \<open>|R - G| < 30\<close> and \<open>|G - B| < 30\<close>, and
  for a decoded image with its 2500 samples isGrayscale is true exactly when the neutral
  samples are more than 0.9 of all samples; so an image whose samples all have
  \<open>R = G = B\<close> is classified grayscale.
\<close>

theorem grayscale_rule:
  assumes "load_pixels w inputData = Inr pixels" and "length pixels = 2500"
  shows "result_field (analyze_colors w inputData) ''isGrayscale'' =
           Some (PBool (9 / 10 <
              rat_of_nat (length (filter (\<lambda>(r, g, b). \<bar>r - g\<bar> < 30 \<and> \<bar>g - b\<bar> < 30) pixels))
                / 2500)) \<and>
         ((\<forall>(r, g, b) \<in> set pixels. r = g \<and> g = b) \<longrightarrow>
            result_field (analyze_colors w inputData) ''isGrayscale'' = Some (PBool True))"
proof -
  define n where "n = length (filter (\<lambda>(r, g, b). \<bar>r - g\<bar> < 30 \<and> \<bar>g - b\<bar> < 30) pixels)"
  have nn: "filter neutral pixels = filter (\<lambda>(r, g, b). \<bar>r - g\<bar> < 30 \<and> \<bar>g - b\<bar> < 30) pixels"
    by (rule filter_cong) (auto simp: neutral_def)
  have ne: "pixels \<noteq> []" using assms(2) by auto
  have len: "int (length pixels) = 2500" using assms(2) by simp
  have "n \<le> length pixels" unfolding n_def by (rule length_filter_le)
  then have b: "0 \<le> int n" "int n \<le> 2500" using assms(2) by simp_all
  have gt: "float_lit (9 / 10) < to_double (of_int (int n) / 2500) \<longleftrightarrow> 2250 < int n"
    using fraction_gt_09 [of "int n"] b by blast
  have "(9 / 10 < rat_of_nat n / 2500) \<longleftrightarrow> 2250 < int n"
  proof -
    have "(9 / 10 < rat_of_nat n / 2500) \<longleftrightarrow> (2250 :: rat) < of_int (int n)" by (simp add: field_simps)
    also have "\<dots> \<longleftrightarrow> 2250 < int n" by (metis of_int_less_iff of_int_numeral)
    finally show ?thesis .
  qed
  with gt have eq: "float_lit (9 / 10) < to_double (rat_of_nat n / 2500) \<longleftrightarrow> 9 / 10 < rat_of_nat n / 2500"
    by simp
  have 1: "result_field (analyze_colors w inputData) ''isGrayscale'' =
           Some (PBool (9 / 10 < rat_of_nat n / 2500))"
    unfolding analyze_colors_nonempty [OF assms(1) ne] len nn n_def [symmetric]
    by (simp add: result_field_def eq)
  have 2: "result_field (analyze_colors w inputData) ''isGrayscale'' = Some (PBool True)"
    if "\<forall>(r, g, b) \<in> set pixels. r = g \<and> g = b"
  proof -
    have "filter (\<lambda>(r, g, b). \<bar>r - g\<bar> < 30 \<and> \<bar>g - b\<bar> < 30) pixels = pixels"
      using that by (intro filter_True) auto
    then have "n = 2500" using assms(2) by (simp add: n_def)
    with 1 show ?thesis by simp
  qed
  from 1 2 show ?thesis unfolding n_def by blast
qed

theorem grayscale_rule_witness:
  "load_pixels white_world demo_job = Inr (replicate 2500 (255, 255, 255)) \<and>
   length (replicate 2500 (255 :: int, 255 :: int, 255 :: int)) = 2500 \<and>
   result_field (analyze_colors white_world demo_job) ''isGrayscale'' = Some (PBool True)"
proof -
  have l: "length (replicate 2500 (255 :: int, 255 :: int, 255 :: int)) = 2500" by simp
  have a: "\<forall>(r, g, b) \<in> set (replicate 2500 (255 :: int, 255 :: int, 255 :: int)). r = g \<and> g = b"
    by simp
  from grayscale_rule [OF load_pixels_white l] a
  have "result_field (analyze_colors white_world demo_job) ''isGrayscale'' = Some (PBool True)"
    by blast
  with load_pixels_white l show ?thesis by (intro conjI)
qed

subsection \<open>Metadata\<close>

lemma megapixels_demo: "py_round (to_double (5000 / 1000000)) 2 = float_lit (1 / 100)"
  unfolding float_lit_def by code_simp

text \<open>
  C7. For a decoded image the metadata analyzer returns width, height, the format or
  \<^verbatim>\<open>"Unknown"\<close> when the image has none, the color mode, totalPixels = width * height,
  megapixels = \<^verbatim>\<open>round(width * height / 1_000_000, 2)\<close>, and as sizeKB the value of the
  Job's \<^verbatim>\<open>blob_size_kb\<close>, unchanged.
\<close>

theorem analyze_metadata_fields:
  assumes "fetch_image w inputData = Inr img" and "image_size img = (width, height)"
  shows "analyze_metadata w inputData =
     PDict [(''width'', PInt width),
            (''height'', PInt height),
            (''format'', PStr (case image_format img of
                                 None \<Rightarrow> ''Unknown''
                               | Some f \<Rightarrow> if f = [] then ''Unknown'' else f)),
            (''mode'', PStr (image_mode img)),
            (''totalPixels'', PInt (width * height)),
            (''megapixels'', PFloat (py_round (to_double (of_int (width * height) / 1000000)) 2)),
            (''sizeKB'', (case map_of inputData ''blob_size_kb'' of None \<Rightarrow> PNone | Some v \<Rightarrow> v))]"
  using assms
  by (simp add: analyze_metadata_def int_truediv_def dict_get_def Let_def split: option.splits)

theorem analyze_metadata_fields_witness:
  "fetch_image demo_world demo_job = Inr demo_image \<and> image_size demo_image = (100, 50) \<and>
   analyze_metadata demo_world demo_job =
     PDict [(''width'', PInt 100), (''height'', PInt 50), (''format'', PStr ''PNG''),
            (''mode'', PStr ''RGB''), (''totalPixels'', PInt 5000),
            (''megapixels'', PFloat (float_lit (1 / 100))),
            (''sizeKB'', PFloat (float_lit (1234 / 100)))]"
proof -
  have sz: "image_size demo_image = (100, 50)" by (simp add: demo_image_def)
  have "analyze_metadata demo_world demo_job =
     PDict [(''width'', PInt 100), (''height'', PInt 50), (''format'', PStr ''PNG''),
            (''mode'', PStr ''RGB''), (''totalPixels'', PInt 5000),
            (''megapixels'', PFloat (float_lit (1 / 100))),
            (''sizeKB'', PFloat (float_lit (1234 / 100)))]"
    using analyze_metadata_fields [OF fetch_image_demo sz] megapixels_demo
    by (simp add: demo_image_def demo_job_def)
  with fetch_image_demo sz show ?thesis by (intro conjI)
qed

text \<open>
  C10. When fetching or decoding fails, the result of the metadata analyzer holds exactly
  the keys width (0), height (0), format (\<^verbatim>\<open>"Unknown"\<close>) and error: mode, totalPixels,
  megapixels and sizeKB are absent, so the Job's \<^verbatim>\<open>blob_size_kb\<close> is not carried through.
\<close>

theorem analyze_metadata_failed:
  assumes "fetch_image w inputData = Inl e"
  shows "analyze_metadata w inputData =
           PDict [(''width'', PInt 0), (''height'', PInt 0), (''format'', PStr ''Unknown''),
                  (''error'', PStr (str_exn e))] \<and>
         result_field (analyze_metadata w inputData) ''mode'' = None \<and>
         result_field (analyze_metadata w inputData) ''totalPixels'' = None \<and>
         result_field (analyze_metadata w inputData) ''megapixels'' = None \<and>
         result_field (analyze_metadata w inputData) ''sizeKB'' = None"
  using assms by (simp add: analyze_metadata_def result_field_def)

theorem analyze_metadata_failed_witness:
  "fetch_image demo_world missing_job
     = Inl (LibraryError ''ResourceNotFoundError'' ''The specified blob does not exist.'') \<and>
   map_of missing_job ''blob_size_kb'' = Some (PFloat (float_lit (1234 / 100))) \<and>
   analyze_metadata demo_world missing_job =
     PDict [(''width'', PInt 0), (''height'', PInt 0), (''format'', PStr ''Unknown''),
            (''error'', PStr ''The specified blob does not exist.'')] \<and>
   result_field (analyze_metadata demo_world missing_job) ''sizeKB'' = None"
proof -
  have m: "map_of missing_job ''blob_size_kb'' = Some (PFloat (float_lit (1234 / 100)))"
    by (simp add: missing_job_def)
  from analyze_metadata_failed [OF fetch_image_missing]
  have r: "analyze_metadata demo_world missing_job =
     PDict [(''width'', PInt 0), (''height'', PInt 0), (''format'', PStr ''Unknown''),
            (''error'', PStr ''The specified blob does not exist.'')]"
    and k: "result_field (analyze_metadata demo_world missing_job) ''sizeKB'' = None"
    by (simp_all add: result_field_def)
  from fetch_image_missing m r k show ?thesis by (intro conjI)
qed

subsection \<open>Report builder\<close>

lemma length_split_slash:
  "length (split_slash s) = Suc (length (filter (\<lambda>c. c = CHR ''/'') s))"
  by (induction s) (auto split: list.splits)

lemma split_slash_no_sep: "CHR ''/'' \<notin> set s \<Longrightarrow> split_slash s = [s]"
  by (induction s) auto

lemma last_split_slash:
  assumes "CHR ''/'' \<notin> set r"
  shows "last (split_slash (pre @ CHR ''/'' # r)) = r"
proof (induction pre)
  case Nil
  show ?case using assms by (simp add: split_slash_no_sep)
next
  case (Cons c cs)
  have "length (split_slash (cs @ CHR ''/'' # r)) \<ge> 2"
    by (simp add: length_split_slash)
  then obtain p q qs where "split_slash (cs @ CHR ''/'' # r) = p # q # qs"
    by (cases "split_slash (cs @ CHR ''/'' # r)" rule: list.exhaust; simp)
       (metis Suc_le_length_iff length_Cons list.size(3) not_less_eq_eq numeral_2_eq_2 zero_le)
  with Cons show ?case by auto
qed

lemma file_name_of_str:
  "file_name_of (PStr s) =
     Inr (PStr (if CHR ''/'' \<in> set s then last (split_slash s) else s))"
  by (simp add: file_name_of_def)

lemma dominant_color_wf:
  assumes "well_formed_colors c"
  shows "dominant_color (PDict c) = Inr (case first_hex c of Some h \<Rightarrow> h | None \<Rightarrow> PStr ''N/A'')"
  using assms
  by (auto simp: well_formed_colors_def first_hex_def dominant_color_def and_then_def py_get_def
      dict_get_def py_index_def dict_index_def py_index0_def
      split: option.splits pyval.splits list.splits)

lemma generate_report_wf:
  assumes "well_formed_colors c"
  shows "generate_report env
           [(''blob_name'', PStr s), (''colors'', PDict c), (''objects'', PDict ob),
            (''text'', PDict t), (''metadata'', PDict m)] =
     Inr (PDict
       [(''id'', PStr (uuid4_str env)),
        (''fileName'', PStr (if CHR ''/'' \<in> set s then last (split_slash s) else s)),
        (''blobPath'', PStr s),
        (''analyzedAt'', PStr (utcnow_isoformat env)),
        (''analyses'',
           PDict [(''colors'', PDict c), (''objects'', PDict ob), (''text'', PDict t),
                  (''metadata'', PDict m)]),
        (''summary'',
           PDict [(''imageSize'',
                     PStr (format_value (repr_other env) (dict_get m ''width'' (PInt 0)) @ ''x''
                             @ format_value (repr_other env) (dict_get m ''height'' (PInt 0)))),
                  (''format'', dict_get m ''format'' (PStr ''Unknown'')),
                  (''dominantColor'', (case first_hex c of Some h \<Rightarrow> h | None \<Rightarrow> PStr ''N/A'')),
                  (''objectsDetected'', dict_get ob ''objectCount'' (PInt 0)),
                  (''hasText'', dict_get t ''hasText'' (PBool False)),
                  (''isGrayscale'', dict_get c ''isGrayscale'' (PBool False))])])"
  by (simp add: generate_report_def and_then_def dict_index_def file_name_of_str py_get_def
      dominant_color_wf [OF assms, unfolded and_then_def])

lemma same_content_and_then:
  assumes "\<And>v. same_content (f v) (g v)"
  shows "same_content (and_then r f) (and_then r g)"
  using assms by (cases r) (simp_all add: and_then_def same_content_def)

lemma generate_report_pure:
  "same_content (generate_report (env\<lparr>uuid4_str := u, utcnow_isoformat := ts\<rparr>) reportData)
     (generate_report env reportData)"
  unfolding generate_report_def
  by (intro same_content_and_then) (simp add: same_content_def result_field_def)

lemma analyze_colors_well_formed: "\<exists>c. analyze_colors w job = PDict c \<and> well_formed_colors c"
proof (cases "load_pixels w job")
  case (Inl e)
  then show ?thesis by (simp add: analyze_colors_def well_formed_colors_def)
next
  case (Inr pixels)
  show ?thesis
  proof (cases "pixels = []")
    case True
    with Inr show ?thesis by (simp add: analyze_colors_def color_stats_def int_truediv_def
        sorted_by_count_desc_def sorted_reverse_def well_formed_colors_def)
  next
    case False
    have n: "int (length pixels) \<noteq> 0" using False by simp
    obtain tp where tp: "take 5 (sorted_by_count_desc (count_colors [] pixels)) = tp" by simp
    have "\<exists>es. top_colors_loop (int (length pixels)) tp = Inr es \<and>
            (es = [] \<or> (\<exists>e rest. es = PDict e # rest \<and> map_of e ''hex'' \<noteq> None))"
    proof (cases tp)
      case Nil
      then show ?thesis by simp
    next
      case (Cons x xs)
      obtain r g b cnt where x: "x = ((r, g, b), cnt)" by (cases x) auto
      obtain e where e: "top_color (int (length pixels)) x = Inr (PDict e)" "map_of e ''hex'' \<noteq> None"
        using n by (simp add: x top_color_def int_truediv_def)
      obtain es where "top_colors_loop (int (length pixels)) xs = Inr es"
      proof (induction xs arbitrary: thesis)
        case Nil
        then show ?case by simp
      next
        case (Cons y ys)
        obtain r g b cnt where y: "y = ((r, g, b), cnt)" by (cases y) auto
        from Cons.IH obtain es where "top_colors_loop (int (length pixels)) ys = Inr es" by blast
        with Cons.prems show ?case using n by (simp add: y top_color_def int_truediv_def)
      qed
      with e Cons show ?thesis by simp
    qed
    then show ?thesis
      using Inr n by (auto simp: analyze_colors_def color_stats_def Let_def tp int_truediv_def
          well_formed_colors_def)
  qed
qed

lemma analyzers_are_dicts:
  "\<exists>c ob t m. analyze_colors w job = PDict c \<and> well_formed_colors c \<and>
     analyze_objects w job = PDict ob \<and> analyze_text job = PDict t \<and>
     analyze_metadata w job = PDict m"
proof -
  obtain c where "analyze_colors w job = PDict c" "well_formed_colors c"
    using analyze_colors_well_formed by blast
  moreover have "\<exists>ob. analyze_objects w job = PDict ob"
    by (simp add: analyze_objects_def Let_def split: sum.splits prod.splits)
  moreover have "\<exists>t. analyze_text job = PDict t" by (simp add: analyze_text_def)
  moreover have "\<exists>m. analyze_metadata w job = PDict m"
    by (simp add: analyze_metadata_def Let_def int_truediv_def split: sum.splits prod.splits)
  ultimately show ?thesis by blast
qed

text \<open>
  C3. For a blob name that is a string and well-formed analyzer results, the report builder
  returns a report whose fileName is the part of the blob name after its last \<^verbatim>\<open>/\<close>, or
  the whole name when it has none, and whose summary.dominantColor is the hex of the first
  dominant color, or \<^verbatim>\<open>"N/A"\<close> when the list is empty or absent. On any input, changing
  only the identifier and the timestamp changes neither the outcome nor the summary and
  analyses of the report. The results of the four analyzers are always well-formed, so the
  builder never fails on them.
\<close>

theorem generate_report_rules:
  assumes "well_formed_colors c"
  shows "(\<exists>fname summary.
      generate_report env
        [(''blob_name'', PStr s), (''colors'', PDict c), (''objects'', PDict ob),
         (''text'', PDict t), (''metadata'', PDict m)] =
        Inr (PDict
          [(''id'', PStr (uuid4_str env)), (''fileName'', PStr fname), (''blobPath'', PStr s),
           (''analyzedAt'', PStr (utcnow_isoformat env)),
           (''analyses'',
              PDict [(''colors'', PDict c), (''objects'', PDict ob), (''text'', PDict t),
                     (''metadata'', PDict m)]),
           (''summary'', PDict summary)]) \<and>
      (\<forall>pre r. s = pre @ CHR ''/'' # r \<and> CHR ''/'' \<notin> set r \<longrightarrow> fname = r) \<and>
      (CHR ''/'' \<notin> set s \<longrightarrow> fname = s) \<and>
      map_of summary ''dominantColor'' =
        Some (case first_hex c of Some h \<Rightarrow> h | None \<Rightarrow> PStr ''N/A'')) \<and>
    (\<forall>u ts reportData.
      same_content (generate_report (env\<lparr>uuid4_str := u, utcnow_isoformat := ts\<rparr>) reportData)
        (generate_report env reportData)) \<and>
    (\<forall>w job. \<exists>c ob t m.
      analyze_colors w job = PDict c \<and> well_formed_colors c \<and>
      analyze_objects w job = PDict ob \<and> analyze_text job = PDict t \<and>
      analyze_metadata w job = PDict m)"
proof (intro conjI allI)
  define fname where "fname = (if CHR ''/'' \<in> set s then last (split_slash s) else s)"
  have 1: "\<forall>pre r. s = pre @ CHR ''/'' # r \<and> CHR ''/'' \<notin> set r \<longrightarrow> fname = r"
    by (auto simp: fname_def last_split_slash)
  have 2: "CHR ''/'' \<notin> set s \<longrightarrow> fname = s" by (simp add: fname_def)
  from generate_report_wf [OF assms, of env s ob t m, folded fname_def] 1 2
  show "\<exists>fname summary.
      generate_report env
        [(''blob_name'', PStr s), (''colors'', PDict c), (''objects'', PDict ob),
         (''text'', PDict t), (''metadata'', PDict m)] =
        Inr (PDict
          [(''id'', PStr (uuid4_str env)), (''fileName'', PStr fname), (''blobPath'', PStr s),
           (''analyzedAt'', PStr (utcnow_isoformat env)),
           (''analyses'',
              PDict [(''colors'', PDict c), (''objects'', PDict ob), (''text'', PDict t),
                     (''metadata'', PDict m)]),
           (''summary'', PDict summary)]) \<and>
      (\<forall>pre r. s = pre @ CHR ''/'' # r \<and> CHR ''/'' \<notin> set r \<longrightarrow> fname = r) \<and>
      (CHR ''/'' \<notin> set s \<longrightarrow> fname = s) \<and>
      map_of summary ''dominantColor'' =
        Some (case first_hex c of Some h \<Rightarrow> h | None \<Rightarrow> PStr ''N/A'')"
    by (intro exI [of _ fname] exI conjI) (assumption | simp)+
next
  fix u ts reportData
  show "same_content (generate_report (env\<lparr>uuid4_str := u, utcnow_isoformat := ts\<rparr>) reportData)
        (generate_report env reportData)"
    by (rule generate_report_pure)
next
  fix w job
  show "\<exists>c ob t m.
      analyze_colors w job = PDict c \<and> well_formed_colors c \<and>
      analyze_objects w job = PDict ob \<and> analyze_text job = PDict t \<and>
      analyze_metadata w job = PDict m"
    by (rule analyzers_are_dicts)
qed

theorem generate_report_rules_witness:
  "well_formed_colors demo_colors \<and>
   (\<exists>summary.
      generate_report demo_env
        [(''blob_name'', PStr ''images/a.png''), (''colors'', PDict demo_colors),
         (''objects'', PDict []), (''text'', PDict []), (''metadata'', PDict [])] =
        Inr (PDict
          [(''id'', PStr (uuid4_str demo_env)), (''fileName'', PStr ''a.png''),
           (''blobPath'', PStr ''images/a.png''),
           (''analyzedAt'', PStr (utcnow_isoformat demo_env)),
           (''analyses'',
              PDict [(''colors'', PDict demo_colors), (''objects'', PDict []), (''text'', PDict []),
                     (''metadata'', PDict [])]),
           (''summary'', PDict summary)]) \<and>
      map_of summary ''dominantColor'' = Some (PStr ''#e00000''))"
proof -
  have wf: "well_formed_colors demo_colors"
    by (simp add: well_formed_colors_def demo_colors_def color_entry_def)
  have fh: "first_hex demo_colors = Some (PStr ''#e00000'')"
    by (simp add: first_hex_def demo_colors_def color_entry_def format_02x_def hex_digit_def)
  from generate_report_rules [OF wf, of demo_env "''images/a.png''" "[]" "[]" "[]"]
  obtain fname summary where
    r: "generate_report demo_env
        [(''blob_name'', PStr ''images/a.png''), (''colors'', PDict demo_colors),
         (''objects'', PDict []), (''text'', PDict []), (''metadata'', PDict [])] =
        Inr (PDict
          [(''id'', PStr (uuid4_str demo_env)), (''fileName'', PStr fname),
           (''blobPath'', PStr ''images/a.png''),
           (''analyzedAt'', PStr (utcnow_isoformat demo_env)),
           (''analyses'',
              PDict [(''colors'', PDict demo_colors), (''objects'', PDict []), (''text'', PDict []),
                     (''metadata'', PDict [])]),
           (''summary'', PDict summary)])"
    and f: "\<forall>pre r. ''images/a.png'' = pre @ CHR ''/'' # r \<and> CHR ''/'' \<notin> set r \<longrightarrow> fname = r"
    and d: "map_of summary ''dominantColor'' =
        Some (case first_hex demo_colors of Some h \<Rightarrow> h | None \<Rightarrow> PStr ''N/A'')"
    by blast
  from f have "''images/a.png'' = ''images'' @ CHR ''/'' # ''a.png'' \<and> CHR ''/'' \<notin> set ''a.png'' \<longrightarrow> fname = ''a.png''"
    by blast
  then have "fname = ''a.png''" by simp
  with r d fh wf show ?thesis by simp
qed

subsection \<open>Orchestrator\<close>

lemma orchestrator_failed:
  assumes "run name (PDict input_data) = Inl e"
    and "name \<in> set [''analyze_colors'', ''analyze_objects'', ''analyze_text'', ''analyze_metadata'']"
  shows "\<exists>e'. image_analyzer_orchestrator run input_data = (Inl e', fan_out input_data)"
  using assms
  by (auto simp: image_analyzer_orchestrator_def call_activity_def fan_out_def split: sum.splits)

lemma orchestrator_prefix:
  "take 4 (snd (image_analyzer_orchestrator run input_data)) = fan_out input_data"
  by (simp add: image_analyzer_orchestrator_def call_activity_def fan_out_def Let_def and_then_def
      split: sum.splits prod.splits)

lemma orchestrator_joined:
  assumes "run ''analyze_colors'' (PDict input_data) = Inr colors"
    and "run ''analyze_objects'' (PDict input_data) = Inr objects"
    and "run ''analyze_text'' (PDict input_data) = Inr text"
    and "run ''analyze_metadata'' (PDict input_data) = Inr metadata"
    and "map_of input_data ''blob_name'' = Some blob_name"
  defines "report_input \<equiv> PDict [(''blob_name'', blob_name), (''colors'', colors),
             (''objects'', objects), (''text'', text), (''metadata'', metadata)]"
  shows "image_analyzer_orchestrator run input_data =
     (case run ''generate_report'' report_input of
        Inl e \<Rightarrow> (Inl e, fan_out input_data @ [Call ''generate_report'' report_input])
      | Inr report \<Rightarrow>
          (run ''store_results'' report,
           fan_out input_data @ [Call ''generate_report'' report_input, Call ''store_results'' report]))"
  using assms(1-5)
  by (simp add: image_analyzer_orchestrator_def call_activity_def fan_out_def and_then_def
      dict_index_def list_index_def report_input_def split: sum.splits)

text \<open>
  C1. The orchestrator first schedules the four analyzers (colors, objects, text, metadata),
  each with the Job as input, and joins them. If any of the four fails, the job fails and
  nothing else is scheduled: no report generation, no storage. If all four succeed, the
  report builder is called once with the blob name and the four results; if it fails the
  job fails without storage, otherwise storage is called once with the report, after the
  report builder, and its answer is the result of the job.
\<close>

theorem orchestrator_order:
  "take 4 (snd (image_analyzer_orchestrator run input_data)) = fan_out input_data \<and>
   (\<forall>name e.
      name \<in> set [''analyze_colors'', ''analyze_objects'', ''analyze_text'', ''analyze_metadata''] \<and>
      run name (PDict input_data) = Inl e \<longrightarrow>
      (\<exists>e'. image_analyzer_orchestrator run input_data = (Inl e', fan_out input_data))) \<and>
   (\<forall>colors objects text metadata blob_name report_input.
      run ''analyze_colors'' (PDict input_data) = Inr colors \<and>
      run ''analyze_objects'' (PDict input_data) = Inr objects \<and>
      run ''analyze_text'' (PDict input_data) = Inr text \<and>
      run ''analyze_metadata'' (PDict input_data) = Inr metadata \<and>
      map_of input_data ''blob_name'' = Some blob_name \<and>
      report_input = PDict [(''blob_name'', blob_name), (''colors'', colors),
                            (''objects'', objects), (''text'', text), (''metadata'', metadata)] \<longrightarrow>
      (\<forall>e. run ''generate_report'' report_input = Inl e \<longrightarrow>
         image_analyzer_orchestrator run input_data =
           (Inl e, fan_out input_data @ [Call ''generate_report'' report_input])) \<and>
      (\<forall>report. run ''generate_report'' report_input = Inr report \<longrightarrow>
         image_analyzer_orchestrator run input_data =
           (run ''store_results'' report,
            fan_out input_data @
              [Call ''generate_report'' report_input, Call ''store_results'' report])))"
proof (intro conjI allI impI)
  show "take 4 (snd (image_analyzer_orchestrator run input_data)) = fan_out input_data"
    by (rule orchestrator_prefix)
next
  fix name e
  assume "name \<in> set [''analyze_colors'', ''analyze_objects'', ''analyze_text'', ''analyze_metadata''] \<and>
      run name (PDict input_data) = Inl e"
  then show "\<exists>e'. image_analyzer_orchestrator run input_data = (Inl e', fan_out input_data)"
    using orchestrator_failed [of run name input_data e] by blast
next
  fix colors objects textr metadata blob_name report_input e
  assume a: "run ''analyze_colors'' (PDict input_data) = Inr colors \<and>
      run ''analyze_objects'' (PDict input_data) = Inr objects \<and>
      run ''analyze_text'' (PDict input_data) = Inr textr \<and>
      run ''analyze_metadata'' (PDict input_data) = Inr metadata \<and>
      map_of input_data ''blob_name'' = Some blob_name \<and>
      report_input = PDict [(''blob_name'', blob_name), (''colors'', colors),
                            (''objects'', objects), (''text'', textr), (''metadata'', metadata)]"
    and g: "run ''generate_report'' report_input = Inl e"
  from a g orchestrator_joined [of run input_data colors objects textr metadata blob_name]
  show "image_analyzer_orchestrator run input_data =
           (Inl e, fan_out input_data @ [Call ''generate_report'' report_input])"
    by simp
next
  fix colors objects textr metadata blob_name report_input report
  assume a: "run ''analyze_colors'' (PDict input_data) = Inr colors \<and>
      run ''analyze_objects'' (PDict input_data) = Inr objects \<and>
      run ''analyze_text'' (PDict input_data) = Inr textr \<and>
      run ''analyze_metadata'' (PDict input_data) = Inr metadata \<and>
      map_of input_data ''blob_name'' = Some blob_name \<and>
      report_input = PDict [(''blob_name'', blob_name), (''colors'', colors),
                            (''objects'', objects), (''text'', textr), (''metadata'', metadata)]"
    and g: "run ''generate_report'' report_input = Inr report"
  from a g orchestrator_joined [of run input_data colors objects textr metadata blob_name]
  show "image_analyzer_orchestrator run input_data =
           (run ''store_results'' report,
            fan_out input_data @
              [Call ''generate_report'' report_input, Call ''store_results'' report])"
    by simp
qed

theorem orchestrator_order_witness:
  "image_analyzer_orchestrator demo_run demo_job =
     (Inr (PStr ''store_results''),
      fan_out demo_job @
        [Call ''generate_report''
           (PDict [(''blob_name'', PStr ''images/a.png''), (''colors'', PStr ''analyze_colors''),
                   (''objects'', PStr ''analyze_objects''), (''text'', PStr ''analyze_text''),
                   (''metadata'', PStr ''analyze_metadata'')]),
         Call ''store_results'' (PStr ''generate_report'')]) \<and>
   failing_run ''analyze_text'' (PDict demo_job)
     = Inl (LibraryError ''HostError'' ''activity host unavailable'') \<and>
   snd (image_analyzer_orchestrator failing_run demo_job) = fan_out demo_job"
proof -
  have b: "map_of demo_job ''blob_name'' = Some (PStr ''images/a.png'')"
    by (simp add: demo_job_def)
  from orchestrator_order [of demo_run demo_job] b
  have 1: "image_analyzer_orchestrator demo_run demo_job =
     (Inr (PStr ''store_results''),
      fan_out demo_job @
        [Call ''generate_report''
           (PDict [(''blob_name'', PStr ''images/a.png''), (''colors'', PStr ''analyze_colors''),
                   (''objects'', PStr ''analyze_objects''), (''text'', PStr ''analyze_text''),
                   (''metadata'', PStr ''analyze_metadata'')]),
         Call ''store_results'' (PStr ''generate_report'')])"
    by (simp add: demo_run_def)
  have f: "failing_run ''analyze_text'' (PDict demo_job)
     = Inl (LibraryError ''HostError'' ''activity host unavailable'')"
    by (simp add: failing_run_def)
  have m: "''analyze_text'' \<in> set [''analyze_colors'', ''analyze_objects'', ''analyze_text'', ''analyze_metadata'']"
    by simp
  from orchestrator_order [of failing_run demo_job] f m
  have "\<exists>e'. image_analyzer_orchestrator failing_run demo_job = (Inl e', fan_out demo_job)"
    by blast
  then have 2: "snd (image_analyzer_orchestrator failing_run demo_job) = fan_out demo_job"
    by auto
  from 1 f 2 show ?thesis by (intro conjI)
qed


subsection \<open>Query endpoint\<close>

lemma demo_list_2:
  "get_results_try demo_store (list_request (Some ''2'')) =
     Inr (PDict [(''count'', PInt 2),
                 (''results'', PList [demo_result ''r5'' ''2024-01-05T00:00:00'',
                                      demo_result ''r4'' ''2024-01-04T00:00:00''])], Some 2)"
  by code_simp

lemma demo_list_minus_1:
  "get_results_try demo_store (list_request (Some ''-1'')) =
     Inr (PDict [(''count'', PInt 4),
                 (''results'', PList [demo_result ''r5'' ''2024-01-05T00:00:00'',
                                      demo_result ''r4'' ''2024-01-04T00:00:00'',
                                      demo_result ''r3'' ''2024-01-03T00:00:00'',
                                      demo_result ''r2'' ''2024-01-02T00:00:00''])], Some 2)"
  by code_simp

lemma demo_lookup_missing:
  "get_results_try demo_store (id_request ''nope'') =
     Inl (LibraryError ''ResourceNotFoundError'' ''The specified resource does not exist.'')"
  by code_simp

lemma py_int_10: "py_int demo_store ''10'' = Inr 10"
  by (simp add: demo_store_def demo_int_def)

lemma py_int_2: "py_int demo_store ''2'' = Inr 2"
  by (simp add: demo_store_def demo_int_def)

lemma py_int_minus_1: "py_int demo_store ''-1'' = Inr (- 1)"
  by (simp add: demo_store_def demo_int_def)

lemma results_of_entities_stored:
  assumes "list_all2 (stored_as w) entities rows"
  shows "results_of_entities w entities = Inr rows"
  using assms
proof (induction rule: list_all2_induct)
  case Nil
  show ?case by simp
next
  case (Cons e es r rs)
  from Cons.hyps(1) have "result_of_entity w e = Inr r"
    by (auto simp: stored_as_def result_of_entity_def and_then_def dict_index_def
        split: option.splits sum.splits)
  with Cons.IH show ?case by (simp add: and_then_def)
qed

text \<open>
  A lookup of an id that is not stored raises inside the handler, and the status of the
  response is not 200.
\<close>

theorem get_results_status_counterexample:
  "get_results_try demo_store (id_request ''nope'') =
     Inl (LibraryError ''ResourceNotFoundError'' ''The specified resource does not exist.'') \<and>
   status_code (get_results demo_store (id_request ''nope'')) \<noteq> 200"
  by (simp add: demo_lookup_missing get_results_def)

text \<open>
  C4. When an exception occurs while a request is handled, the query endpoint
  returns a 500 response whose body is the JSON object with the single key \<^verbatim>\<open>error\<close> and the
  message of the exception; a failing table client, a lookup of an id that is not stored
  and a limit that is not a number all give this same shape and status. Without an
  exception the status is 200.
\<close>

theorem get_results_error_response:
  "(\<forall>e. get_results_try w req = Inl e \<longrightarrow> get_results w req = error_response w e) \<and>
   (\<forall>e. get_table_client w = Inl e \<longrightarrow> get_results w req = error_response w e) \<and>
   (\<forall>tc rid e.
      get_table_client w = Inr tc \<and> route_params req ''id'' = Some rid \<and> rid \<noteq> [] \<and>
      get_entity tc PARTITION_KEY rid = Inl e \<longrightarrow>
      get_results w req = error_response w e) \<and>
   (\<forall>tc e.
      get_table_client w = Inr tc \<and> route_params req ''id'' = None \<and>
      py_int w (case params req ''limit'' of None \<Rightarrow> ''10'' | Some s \<Rightarrow> s) = Inl e \<longrightarrow>
      get_results w req = error_response w e) \<and>
   (\<forall>v. get_results_try w req = Inr v \<longrightarrow> status_code (get_results w req) = 200)"
proof (intro conjI allI impI)
  fix e assume "get_results_try w req = Inl e"
  then show "get_results w req = error_response w e"
    by (simp add: get_results_def error_response_def)
next
  fix e assume "get_table_client w = Inl e"
  then have "get_results_try w req = Inl e" by (simp add: get_results_try_def and_then_def)
  then show "get_results w req = error_response w e"
    by (simp add: get_results_def error_response_def)
next
  fix tc rid e
  assume "get_table_client w = Inr tc \<and> route_params req ''id'' = Some rid \<and> rid \<noteq> [] \<and>
      get_entity tc PARTITION_KEY rid = Inl e"
  then have "get_results_try w req = Inl e"
    by (cases rid) (simp_all add: get_results_try_def and_then_def)
  then show "get_results w req = error_response w e"
    by (simp add: get_results_def error_response_def)
next
  fix tc e
  assume "get_table_client w = Inr tc \<and> route_params req ''id'' = None \<and>
      py_int w (case params req ''limit'' of None \<Rightarrow> ''10'' | Some s \<Rightarrow> s) = Inl e"
  then have "get_results_try w req = Inl e"
    by (simp add: get_results_try_def and_then_def)
  then show "get_results w req = error_response w e"
    by (simp add: get_results_def error_response_def)
next
  fix v assume "get_results_try w req = Inr v"
  then show "status_code (get_results w req) = 200"
    by (cases v) (simp add: get_results_def)
qed

theorem get_results_error_response_witness:
  "get_results_try demo_store (id_request ''nope'') =
     Inl (LibraryError ''ResourceNotFoundError'' ''The specified resource does not exist.'') \<and>
   get_results demo_store (id_request ''nope'') =
     error_response demo_store
       (LibraryError ''ResourceNotFoundError'' ''The specified resource does not exist.'') \<and>
   status_code (get_results demo_store (id_request ''nope'')) = 500"
proof -
  from get_results_error_response [of demo_store "id_request ''nope''"] demo_lookup_missing
  have "get_results demo_store (id_request ''nope'') =
     error_response demo_store
       (LibraryError ''ResourceNotFoundError'' ''The specified resource does not exist.'')"
    by simp
  with demo_lookup_missing show ?thesis by (simp add: error_response_def)
qed

lemma get_results_list:
  assumes "get_table_client w = Inr tc"
    and "route_params req ''id'' = None"
    and "py_int w (case params req ''limit'' of None \<Rightarrow> ''10'' | Some s \<Rightarrow> s) = Inr N"
    and "query_entities tc (''PartitionKey eq '' @ quoted PARTITION_KEY) = Inr entities"
    and "list_all2 (stored_as w) entities rows"
  shows "get_results_try w req =
     Inr (PDict [(''count'', PInt (int (length (slice_to N (sorted_reverse analyzed_at rows))))),
                 (''results'', PList (map PDict (slice_to N (sorted_reverse analyzed_at rows))))],
          Some 2)"
  using assms(1-4) results_of_entities_stored [OF assms(5)]
  by (simp add: get_results_try_def and_then_def Let_def)

lemma take_sorted_most:
  fixes f :: "'a \<Rightarrow> 'k::linorder"
  assumes "sorted_wrt (\<lambda>x y. f y \<le> f x) S" and "mset S = mset rows"
  shows "mset (take n S) \<subseteq># mset rows"
    and "\<forall>x \<in> set (take n S). \<forall>y \<in># mset rows - mset (take n S). f y \<le> f x"
proof -
  have S: "S = take n S @ drop n S" by simp
  have m: "mset rows = mset (take n S) + mset (drop n S)"
    using assms(2) by (metis S mset_append)
  show "mset (take n S) \<subseteq># mset rows" unfolding m by simp
  have d: "mset rows - mset (take n S) = mset (drop n S)" unfolding m by simp
  have "sorted_wrt (\<lambda>x y. f y \<le> f x) (take n S @ drop n S)" using assms(1) by simp
  then have "\<forall>x \<in> set (take n S). \<forall>y \<in> set (drop n S). f y \<le> f x"
    unfolding sorted_wrt_append by blast
  then show "\<forall>x \<in> set (take n S). \<forall>y \<in># mset rows - mset (take n S). f y \<le> f x"
    unfolding d by simp
qed

text \<open>
  C9. For every stored set of well-formed records and every limit text that \<^verbatim>\<open>int\<close> reads
  as a number \<open>N \<ge> 0\<close> (the text \<^verbatim>\<open>"10"\<close>, read as 10, when the parameter is absent), the
  list endpoint answers 200 with the records sorted by analyzedAt, descending, cut to the
  first \<open>N\<close>: it returns \<open>min N (number of records)\<close> records, count is their number, and
  no record left out is more recent than a returned one.
\<close>

theorem list_results_sorted_truncated:
  assumes "get_table_client w = Inr tc"
    and "route_params req ''id'' = None"
    and "py_int w (case params req ''limit'' of None \<Rightarrow> ''10'' | Some s \<Rightarrow> s) = Inr N"
    and "0 \<le> N"
    and "query_entities tc (''PartitionKey eq '' @ quoted PARTITION_KEY) = Inr entities"
    and "list_all2 (stored_as w) entities rows"
    and "py_int w ''10'' = Inr 10"
  shows "\<exists>rs.
     get_results w req =
       \<lparr>body = json_dumps w (Some 2)
                 (PDict [(''count'', PInt (int (length rs))), (''results'', PList (map PDict rs))]),
        mimetype = ''application/json'', status_code = 200\<rparr> \<and>
     int (length rs) \<le> N \<and>
     length rs = min (nat N) (length entities) \<and>
     sorted_wrt (\<lambda>x y. analyzed_at y \<le> analyzed_at x) rs \<and>
     mset rs \<subseteq># mset rows \<and>
     (\<forall>x \<in> set rs. \<forall>y \<in># mset rows - mset rs. analyzed_at y \<le> analyzed_at x) \<and>
     (params req ''limit'' = None \<longrightarrow> N = 10)"
proof -
  define S where "S = sorted_reverse analyzed_at rows"
  define rs where "rs = take (nat N) S"
  have sl: "slice_to N S = rs" using assms(4) by (simp add: slice_to_def rs_def)
  have len: "length rows = length entities"
    using assms(6) by (simp add: list_all2_lengthD)
  have 1: "get_results w req =
       \<lparr>body = json_dumps w (Some 2)
                 (PDict [(''count'', PInt (int (length rs))), (''results'', PList (map PDict rs))]),
        mimetype = ''application/json'', status_code = 200\<rparr>"
    using get_results_list [OF assms(1,2,3,5,6)]
    by (simp add: get_results_def S_def [symmetric] sl)
  have 3: "length rs = min (nat N) (length entities)"
    by (simp add: rs_def S_def len min.commute)
  then have 2: "int (length rs) \<le> N" using assms(4) by linarith
  have sS: "sorted_wrt (\<lambda>x y. analyzed_at y \<le> analyzed_at x) S"
    unfolding S_def by (rule desc_sorted_reverse)
  then have 4: "sorted_wrt (\<lambda>x y. analyzed_at y \<le> analyzed_at x) rs"
    unfolding rs_def by (rule sorted_wrt_take)
  have mS: "mset S = mset rows" by (simp add: S_def)
  have 5: "mset rs \<subseteq># mset rows"
    unfolding rs_def using sS mS by (rule take_sorted_most)
  have 6: "\<forall>x \<in> set rs. \<forall>y \<in># mset rows - mset rs. analyzed_at y \<le> analyzed_at x"
    unfolding rs_def using sS mS by (rule take_sorted_most)
  have 7: "params req ''limit'' = None \<longrightarrow> N = 10"
    using assms(3,7) by auto
  show ?thesis by (intro exI [of _ rs] conjI 1 2 3 4 5 6 7)
qed

text \<open>
  With \<^verbatim>\<open>limit=-1\<close> and five stored records the slice drops only the last record: four
  records are returned, which is more than the limit.
\<close>

theorem list_results_negative_limit_counterexample:
  "py_int demo_store ''-1'' = Inr (- 1) \<and>
   get_results_try demo_store (list_request (Some ''-1'')) =
     Inr (PDict [(''count'', PInt 4),
                 (''results'', PList [demo_result ''r5'' ''2024-01-05T00:00:00'',
                                      demo_result ''r4'' ''2024-01-04T00:00:00'',
                                      demo_result ''r3'' ''2024-01-03T00:00:00'',
                                      demo_result ''r2'' ''2024-01-02T00:00:00''])], Some 2) \<and>
   \<not> (4 :: int) \<le> - 1"
  using py_int_minus_1 demo_list_minus_1 by simp

lemma demo_rows:
  "list_all2 (stored_as demo_store) demo_entities
     [[(''id'', PStr ''r3''), (''fileName'', PStr ''a.png''),
       (''analyzedAt'', PStr ''2024-01-03T00:00:00''), (''summary'', PStr ''{}'')],
      [(''id'', PStr ''r1''), (''fileName'', PStr ''a.png''),
       (''analyzedAt'', PStr ''2024-01-01T00:00:00''), (''summary'', PStr ''{}'')],
      [(''id'', PStr ''r5''), (''fileName'', PStr ''a.png''),
       (''analyzedAt'', PStr ''2024-01-05T00:00:00''), (''summary'', PStr ''{}'')],
      [(''id'', PStr ''r2''), (''fileName'', PStr ''a.png''),
       (''analyzedAt'', PStr ''2024-01-02T00:00:00''), (''summary'', PStr ''{}'')],
      [(''id'', PStr ''r4''), (''fileName'', PStr ''a.png''),
       (''analyzedAt'', PStr ''2024-01-04T00:00:00''), (''summary'', PStr ''{}'')]]"
  by (simp add: demo_entities_def demo_entity_def stored_as_def demo_store_def)

theorem list_results_sorted_truncated_witness:
  "get_table_client demo_store = Inr demo_table \<and>
   route_params (list_request (Some ''2'')) ''id'' = None \<and>
   py_int demo_store ''2'' = Inr 2 \<and> (0 :: int) \<le> 2 \<and>
   py_int demo_store ''10'' = Inr 10 \<and>
   query_entities demo_table (''PartitionKey eq '' @ quoted PARTITION_KEY) = Inr demo_entities \<and>
   length demo_entities = 5 \<and>
   (\<exists>rs. get_results demo_store (list_request (Some ''2'')) =
       \<lparr>body = json_dumps demo_store (Some 2)
                 (PDict [(''count'', PInt (int (length rs))), (''results'', PList (map PDict rs))]),
        mimetype = ''application/json'', status_code = 200\<rparr> \<and>
      length rs = 2) \<and>
   get_results_try demo_store (list_request (Some ''2'')) =
     Inr (PDict [(''count'', PInt 2),
                 (''results'', PList [demo_result ''r5'' ''2024-01-05T00:00:00'',
                                      demo_result ''r4'' ''2024-01-04T00:00:00''])], Some 2)"
proof -
  have tc: "get_table_client demo_store = Inr demo_table"
    by (simp add: get_table_client_def demo_store_def)
  have noid: "route_params (list_request (Some ''2'')) ''id'' = None"
    by (simp add: list_request_def)
  have lim: "py_int demo_store (case params (list_request (Some ''2'')) ''limit'' of None \<Rightarrow> ''10'' | Some s \<Rightarrow> s) = Inr 2"
    by (simp add: list_request_def py_int_2)
  have nn: "(0 :: int) \<le> 2" by simp
  have q: "query_entities demo_table (''PartitionKey eq '' @ quoted PARTITION_KEY) = Inr demo_entities"
    by (simp add: demo_table_def)
  have l5: "length demo_entities = 5" by (simp add: demo_entities_def)
  from list_results_sorted_truncated [OF tc noid lim nn q demo_rows py_int_10]
  obtain rs where
    "get_results demo_store (list_request (Some ''2'')) =
       \<lparr>body = json_dumps demo_store (Some 2)
                 (PDict [(''count'', PInt (int (length rs))), (''results'', PList (map PDict rs))]),
        mimetype = ''application/json'', status_code = 200\<rparr>"
    and "length rs = min (nat 2) (length demo_entities)"
    by blast
  then have "\<exists>rs. get_results demo_store (list_request (Some ''2'')) =
       \<lparr>body = json_dumps demo_store (Some 2)
                 (PDict [(''count'', PInt (int (length rs))), (''results'', PList (map PDict rs))]),
        mimetype = ''application/json'', status_code = 200\<rparr> \<and>
      length rs = 2"
    using l5 by (intro exI [of _ rs]) simp
  with tc noid py_int_2 nn py_int_10 q l5 demo_list_2 show ?thesis by (intro conjI)
qed

end
